theory Spec2Isabelle
  imports Complex_Main "HOL-Library.AList"
begin

section \<open>JavaScript numbers\<close>

text \<open>
  Every number of the engine is an IEEE-754 binary64 value.  A finite double is represented
  by the real number it denotes; the result of each arithmetic operation of the source is
  rounded to the nearest double, ties to even (\<open>fl\<close>).  \<open>rne\<close> rounds a real to the nearest
  integer, ties to even; \<open>normalise\<close> scales a positive magnitude into the binade
  \<open>[2^52, 2^53)\<close> while tracking the unit in the last place (bounded below by the subnormal
  spacing \<open>2^-1074\<close>).  NaN, the infinities and overflow beyond \<open>2^1024\<close> are outside the
  model; comparisons, \<open>Math.floor\<close>, \<open>Math.min\<close> and \<open>Math.max\<close> are exact.
\<close>

definition rne :: "real \<Rightarrow> int" where
  "rne v = (let f = \<lfloor>v\<rfloor>; r = v - of_int f in
     if r < 1 / 2 then f else if 1 / 2 < r then f + 1 else if even f then f else f + 1)"

definition minUlp :: real where
  "minUlp = 1 / 2 ^ 1074"

fun normalise :: "nat \<Rightarrow> real \<Rightarrow> real \<Rightarrow> real \<times> real" where
  "normalise 0 m u = (m, u)"
| "normalise (Suc n) m u =
     (if 2 ^ 53 \<le> m then normalise n (m / 2) (u * 2)
      else if m < 2 ^ 52 \<and> minUlp < u then normalise n (m * 2) (u / 2)
      else (m, u))"

definition fl :: "real \<Rightarrow> real" where
  "fl v = (if v = 0 then 0 else
     (case normalise 2200 \<bar>v\<bar> 1 of (m, u) \<Rightarrow> sgn v * of_int (rne m) * u))"

text \<open>
  The literal \<open>0.1\<close> and \<open>Math.sqrt\<close> (correctly rounded; the engine applies it to
  rounded sums of two squares only, which are never negative).
\<close>

definition js_0_1 :: real where
  "js_0_1 = fl (1 / 10)"

definition jsqrt :: "real \<Rightarrow> real" where
  "jsqrt v = fl (sqrt v)"

section \<open>Data model (types.ts)\<close>

text \<open>
  Identities are the strings returned by \<open>uuidv4()\<close>; the model draws them from a counter,
  so each call returns an identity never returned before.  A dictionary keyed by identity is
  an association list in insertion order (the order \<open>Object.values\<close> iterates in); the \<open>id\<close>
  field of a record is its key.  \<open>Player.units\<close> holds references to the unit objects of
  \<open>GameState.units\<close>: a reference is the unit's identity, and reading through it is a lookup
  in the unit map.

  Position objects live in a heap, a list indexed by reference: every field of type
  \<open>Position\<close> holds a reference, an object literal appends a new object, and
  \<open>unit.position.x += ...\<close> overwrites the object in place, for every holder of the
  reference.  A position handed to a command is either an object the engine holds no
  reference to yet (\<open>NewObject\<close>, entered into the heap when the command keeps it) or one it
  already refers to (\<open>Shared\<close>).

  The player key of \<open>createUnit\<close> is any string: an identity (\<open>Uuid\<close>) or any other string
  (\<open>Name\<close>).  \<open>players\<close> is a plain object, so a name of \<open>Object.prototype\<close> reads as an
  inherited member.  The unit identities handed to \<open>moveUnit\<close> and \<open>attackUnit\<close> are
  identities.
\<close>

type_synonym ident = nat

type_synonym ref = nat

datatype Key = Uuid ident | Name string

datatype error = TypeError

datatype UnitType = SOLDIER | TANK | HELICOPTER

datatype FactionType = USA | CHINA | GLA

datatype ResourceType = MONEY

record Position =
  px :: real
  py :: real

datatype PositionArg = NewObject Position | Shared ref

record Unit =
  unitType :: UnitType
  position :: ref
  health :: real
  maxHealth :: real
  attack :: real
  defense :: real
  unitRange :: real
  speed :: real
  playerId :: ident
  targetId :: "ident option"
  path :: "ref list option"
  isDead :: bool
  isMoving :: bool
  isAttacking :: bool
  canAttackAir :: bool
  canAttackGround :: bool

record Player =
  playerName :: string
  faction :: FactionType
  money :: real
  playerUnits :: "ident list"
  basePosition :: ref
  color :: string

record Resource =
  resourceType :: ResourceType
  resourcePosition :: ref
  amount :: real
  respawnTime :: real
  isCollected :: bool

text \<open>
  The engine object: the fields of \<open>GameState\<close>, the private fields of the class, the
  identity counter and the heap of position objects.
\<close>

record GameEngine =
  players :: "(ident \<times> Player) list"
  units :: "(ident \<times> Unit) list"
  resources :: "(ident \<times> Resource) list"
  gameTime :: real
  mapWidth :: real
  mapHeight :: real
  lastUpdateTime :: real
  resourceSpots :: "ref list"
  uuidCount :: nat
  heap :: "Position list"

text \<open>
  Reading through a reference, creating an object, and taking in the object a caller
  passes.  \<open>known\<close>: the reference a caller shares is one of the heap.
\<close>

definition posAt :: "GameEngine \<Rightarrow> ref \<Rightarrow> Position" where
  "posAt s a = heap s ! a"

definition alloc :: "GameEngine \<Rightarrow> Position \<Rightarrow> ref \<times> GameEngine" where
  "alloc s p = (length (heap s), s\<lparr>heap := heap s @ [p]\<rparr>)"

definition passed :: "GameEngine \<Rightarrow> PositionArg \<Rightarrow> ref \<times> GameEngine" where
  "passed s arg = (case arg of NewObject p \<Rightarrow> alloc s p | Shared a \<Rightarrow> (a, s))"

definition known :: "GameEngine \<Rightarrow> PositionArg \<Rightarrow> bool" where
  "known s arg = (case arg of NewObject p \<Rightarrow> True | Shared a \<Rightarrow> a < length (heap s))"

text \<open>The own property names of \<open>Object.prototype\<close>.\<close>

definition objectPrototypeNames :: "string list" where
  "objectPrototypeNames =
     [''constructor'', ''hasOwnProperty'', ''isPrototypeOf'', ''propertyIsEnumerable'',
      ''toLocaleString'', ''toString'', ''valueOf'', ''__proto__'', ''__defineGetter__'',
      ''__defineSetter__'', ''__lookupGetter__'', ''__lookupSetter__'']"

section \<open>Constants (engine.ts)\<close>

fun BASE_UNIT_COSTS :: "UnitType \<Rightarrow> real" where
  "BASE_UNIT_COSTS SOLDIER = 150"
| "BASE_UNIT_COSTS TANK = 450"
| "BASE_UNIT_COSTS HELICOPTER = 700"

text \<open>\<open>UNIT_STATS\<close> spread into a new unit record by \<open>createUnit\<close>.\<close>

fun UNIT_STATS :: "UnitType \<Rightarrow> ref \<Rightarrow> ident \<Rightarrow> Unit" where
  "UNIT_STATS SOLDIER pos pid =
     \<lparr>unitType = SOLDIER, position = pos, health = 100, maxHealth = 100, attack = 10,
      defense = 5, unitRange = 3, speed = 2, playerId = pid, targetId = None, path = None,
      isDead = False, isMoving = False, isAttacking = False,
      canAttackAir = True, canAttackGround = True\<rparr>"
| "UNIT_STATS TANK pos pid =
     \<lparr>unitType = TANK, position = pos, health = 300, maxHealth = 300, attack = 30,
      defense = 20, unitRange = 5, speed = 3 / 2, playerId = pid, targetId = None, path = None,
      isDead = False, isMoving = False, isAttacking = False,
      canAttackAir = False, canAttackGround = True\<rparr>"
| "UNIT_STATS HELICOPTER pos pid =
     \<lparr>unitType = HELICOPTER, position = pos, health = 200, maxHealth = 200, attack = 25,
      defense = 10, unitRange = 7, speed = 3, playerId = pid, targetId = None, path = None,
      isDead = False, isMoving = False, isAttacking = False,
      canAttackAir = True, canAttackGround = True\<rparr>"

definition RESOURCE_respawnTime :: real where
  "RESOURCE_respawnTime = 30"

definition RESOURCE_amount :: "ResourceType \<Rightarrow> real" where
  "RESOURCE_amount t = 150"

definition mapResourceCount :: nat where
  "mapResourceCount = 15"

definition playerColors :: "string list" where
  "playerColors = [''#FF5733'', ''#33FF57'', ''#3357FF'', ''#F3FF33'', ''#FF33F3'']"

section \<open>Construction\<close>

text \<open>
  \<open>Date.now()\<close> and \<open>Math.random()\<close> are inputs: the constructor takes the clock reading and
  the sequence of random draws (two per resource spot, \<open>x\<close> first).  \<open>generateSpot\<close> is one
  round of the loop of \<open>generateResourceSpots\<close>, \<open>spawnResource\<close> one round of the loop of
  \<open>spawnResources\<close>; a resource shares the position object of its spot.
\<close>

definition resourceSpot :: "real \<Rightarrow> real \<Rightarrow> (nat \<Rightarrow> real) \<Rightarrow> nat \<Rightarrow> Position" where
  "resourceSpot w h rnd i =
     \<lparr>px = fl (fl (rnd (2 * i) * fl (w - 200)) + 100),
      py = fl (fl (rnd (2 * i + 1) * fl (h - 200)) + 100)\<rparr>"

definition generateSpot :: "(nat \<Rightarrow> real) \<Rightarrow> nat \<Rightarrow> GameEngine \<Rightarrow> GameEngine" where
  "generateSpot rnd i s =
     (case alloc s (resourceSpot (mapWidth s) (mapHeight s) rnd i) of
        (a, s') \<Rightarrow> s'\<lparr>resourceSpots := resourceSpots s' @ [a]\<rparr>)"

definition spawnResource :: "nat \<Rightarrow> GameEngine \<Rightarrow> GameEngine" where
  "spawnResource i s =
     s\<lparr>resources := AList.update (uuidCount s)
          \<lparr>resourceType = MONEY, resourcePosition = resourceSpots s ! i,
           amount = RESOURCE_amount MONEY, respawnTime = RESOURCE_respawnTime,
           isCollected = False\<rparr> (resources s),
       uuidCount := Suc (uuidCount s)\<rparr>"

definition spawnResources :: "GameEngine \<Rightarrow> GameEngine" where
  "spawnResources s = fold spawnResource [0..<mapResourceCount] s"

definition newGameEngine :: "real \<Rightarrow> real \<Rightarrow> real \<Rightarrow> (nat \<Rightarrow> real) \<Rightarrow> GameEngine" where
  "newGameEngine w h now rnd =
     spawnResources
       (fold (generateSpot rnd) [0..<mapResourceCount]
          \<lparr>players = [], units = [], resources = [], gameTime = 0, mapWidth = w,
           mapHeight = h, lastUpdateTime = now, resourceSpots = [], uuidCount = 0,
           heap = []\<rparr>)"

section \<open>Commands\<close>

definition setUnit :: "GameEngine \<Rightarrow> ident \<Rightarrow> Unit \<Rightarrow> GameEngine" where
  "setUnit s uid u = s\<lparr>units := AList.update uid u (units s)\<rparr>"

definition setPlayer :: "GameEngine \<Rightarrow> ident \<Rightarrow> Player \<Rightarrow> GameEngine" where
  "setPlayer s pid p = s\<lparr>players := AList.update pid p (players s)\<rparr>"

text \<open>The local \<open>unitCost[MONEY]\<close> of \<open>createUnit\<close>, for a roster of \<open>n\<close> units.\<close>

definition unitCost :: "UnitType \<Rightarrow> nat \<Rightarrow> real" where
  "unitCost ty n =
     (let scalingFactor = fl (1 + fl (real n * js_0_1))
      in of_int \<lfloor>fl (BASE_UNIT_COSTS ty * scalingFactor)\<rfloor>)"

text \<open>
  \<open>createUnit\<close>.  The result is \<open>Inr None\<close> for \<open>null\<close>, \<open>Inr (Some id)\<close> for the new
  identity, and \<open>Inl TypeError\<close> where the call throws: for a name of \<open>Object.prototype\<close>
  the lookup \<open>this.state.players[playerId]\<close> yields the inherited member, which is truthy
  and has no \<open>units\<close>, so \<open>player.units.length\<close> throws before anything is changed.
\<close>

definition createUnit ::
  "GameEngine \<Rightarrow> Key \<Rightarrow> UnitType \<Rightarrow> PositionArg \<Rightarrow> (error + ident option) \<times> GameEngine" where
  "createUnit s key ty arg =
     (case key of
        Name nm \<Rightarrow>
          if nm \<in> set objectPrototypeNames then (Inl TypeError, s) else (Inr None, s)
      | Uuid pid \<Rightarrow>
         (case map_of (players s) pid of
            None \<Rightarrow> (Inr None, s)
          | Some player \<Rightarrow>
              let cost = unitCost ty (length (playerUnits player)) in
              if money player < cost then (Inr None, s)
              else
                (case passed s arg of
                   (a, s1) \<Rightarrow>
                     let unitId = uuidCount s1;
                         player' = player\<lparr>money := fl (money player - cost),
                                          playerUnits := playerUnits player @ [unitId]\<rparr>
                     in (Inr (Some unitId),
                         s1\<lparr>players := AList.update pid player' (players s1),
                            units := AList.update unitId (UNIT_STATS ty a pid) (units s1),
                            uuidCount := Suc (uuidCount s1)\<rparr>))))"

text \<open>
  \<open>addPlayer\<close>; \<open>r1\<close>, \<open>r2\<close> are the two \<open>Math.random()\<close> draws of the base position.  The
  base position and the three unit positions are object literals.
\<close>

definition addPlayer :: "GameEngine \<Rightarrow> string \<Rightarrow> FactionType \<Rightarrow> real \<Rightarrow> real \<Rightarrow> ident \<times> GameEngine" where
  "addPlayer s nm fac r1 r2 =
     (let newId = uuidCount s;
          base = \<lparr>px = fl (fl (r1 * fl (mapWidth s - 200)) + 100),
                  py = fl (fl (r2 * fl (mapHeight s - 200)) + 100)\<rparr>;
          col = playerColors ! (length (players s) mod length playerColors)
      in case alloc s base of
           (b, sb) \<Rightarrow>
             let player = \<lparr>playerName = nm, faction = fac, money = 800, playerUnits = [],
                           basePosition = b, color = col\<rparr>;
                 s0 = sb\<lparr>players := AList.update newId player (players sb),
                         uuidCount := Suc (uuidCount sb)\<rparr>;
                 s1 = snd (createUnit s0 (Uuid newId) SOLDIER
                             (NewObject \<lparr>px = fl (px base - 20), py = fl (py base - 20)\<rparr>));
                 s2 = snd (createUnit s1 (Uuid newId) SOLDIER
                             (NewObject \<lparr>px = fl (px base + 20), py = fl (py base - 20)\<rparr>));
                 s3 = snd (createUnit s2 (Uuid newId) TANK
                             (NewObject \<lparr>px = px base, py = fl (py base + 20)\<rparr>))
             in (newId, s3))"

definition moveUnit :: "GameEngine \<Rightarrow> ident \<Rightarrow> PositionArg \<Rightarrow> bool \<times> GameEngine" where
  "moveUnit s uid targetPosition =
     (case map_of (units s) uid of
        None \<Rightarrow> (False, s)
      | Some unit \<Rightarrow>
          if isDead unit then (False, s)
          else (case passed s targetPosition of
                  (a, s1) \<Rightarrow>
                    (True, setUnit s1 uid
                       (unit\<lparr>path := Some [a], isMoving := True,
                             isAttacking := False, targetId := None\<rparr>))))"

definition canUnitAttackTarget :: "Unit \<Rightarrow> Unit \<Rightarrow> bool" where
  "canUnitAttackTarget attacker target =
     (let isTargetAir = (unitType target = HELICOPTER)
      in if isTargetAir then canAttackAir attacker else canAttackGround attacker)"

definition attackUnit :: "GameEngine \<Rightarrow> ident \<Rightarrow> ident \<Rightarrow> bool \<times> GameEngine" where
  "attackUnit s attackerId tid =
     (case map_of (units s) attackerId of
        None \<Rightarrow> (False, s)
      | Some attacker \<Rightarrow>
         (case map_of (units s) tid of
            None \<Rightarrow> (False, s)
          | Some target \<Rightarrow>
              if isDead attacker \<or> isDead target \<or> playerId attacker = playerId target
              then (False, s)
              else if \<not> canUnitAttackTarget attacker target then (False, s)
              else (True, setUnit s attackerId
                      (attacker\<lparr>targetId := Some tid, isAttacking := True\<rparr>))))"

section \<open>The per-tick update\<close>

text \<open>
  The expression \<open>Math.sqrt(dx * dx + dy * dy)\<close> with \<open>dx = a.x - b.x\<close>, \<open>dy = a.y - b.y\<close>,
  which the source writes out at each use.
\<close>

definition distanceFrom :: "Position \<Rightarrow> Position \<Rightarrow> real" where
  "distanceFrom a b =
     (let dx = fl (px a - px b); dy = fl (py a - py b)
      in jsqrt (fl (fl (dx * dx) + fl (dy * dy))))"

text \<open>
  One step of the scan of \<open>checkForAutoTarget\<close>: \<open>best\<close> is \<open>nearestEnemy\<close> with
  \<open>nearestDistance\<close>, \<open>None\<close> standing for \<open>null\<close> and \<open>Infinity\<close>.
\<close>

definition scanEnemy ::
  "GameEngine \<Rightarrow> Unit \<Rightarrow> ident \<times> Unit \<Rightarrow> (ident \<times> real) option \<Rightarrow> (ident \<times> real) option" where
  "scanEnemy s unit entry best =
     (case entry of (oid, otherUnit) \<Rightarrow>
        if isDead otherUnit \<or> playerId otherUnit = playerId unit then best
        else if \<not> canUnitAttackTarget unit otherUnit then best
        else
          let distance = distanceFrom (posAt s (position otherUnit)) (posAt s (position unit));
              detectionRange = fl (unitRange unit * 25)
          in if distance \<le> detectionRange \<and>
                (case best of None \<Rightarrow> True | Some (nid, nearestDistance) \<Rightarrow> distance < nearestDistance)
             then Some (oid, distance) else best)"

definition checkForAutoTarget :: "GameEngine \<Rightarrow> ident \<Rightarrow> GameEngine" where
  "checkForAutoTarget s uid =
     (case map_of (units s) uid of
        None \<Rightarrow> s
      | Some unit \<Rightarrow>
          if isAttacking unit \<or> isMoving unit then s
          else (case fold (scanEnemy s unit) (units s) None of
                  None \<Rightarrow> s
                | Some (nearestEnemy, d) \<Rightarrow> snd (attackUnit s uid nearestEnemy)))"

text \<open>
  Advancing a unit towards the object \<open>dest\<close> at the unit's speed (both uses in
  \<open>updateUnits\<close>): the unit's position object is overwritten in place.  The engine divides
  by \<open>distance\<close> only where it is at least 1 (movement) or above the attack range
  (pursuit), so the divisor is not zero for the ranges of \<open>UNIT_STATS\<close>.
\<close>

definition advance :: "real \<Rightarrow> GameEngine \<Rightarrow> Unit \<Rightarrow> ref \<Rightarrow> GameEngine" where
  "advance deltaTime s unit dest =
     (let here = posAt s (position unit);
          dx = fl (px (posAt s dest) - px here);
          dy = fl (py (posAt s dest) - py here);
          distance = jsqrt (fl (fl (dx * dx) + fl (dy * dy)));
          moveDistance = fl (fl (speed unit * deltaTime) * 60);
          ratio = min (fl (moveDistance / distance)) 1
      in s\<lparr>heap := (heap s)[position unit :=
                          \<lparr>px = fl (px here + fl (dx * ratio)),
                           py = fl (py here + fl (dy * ratio))\<rparr>]\<rparr>)"

text \<open>The block \<open>// Handle movement\<close>.\<close>

definition handleMovement :: "real \<Rightarrow> GameEngine \<Rightarrow> ident \<Rightarrow> GameEngine" where
  "handleMovement deltaTime s uid =
     (case map_of (units s) uid of
        None \<Rightarrow> s
      | Some unit \<Rightarrow>
         (case path unit of
            Some (targetPos # rest) \<Rightarrow>
              if isMoving unit then
                if distanceFrom (posAt s targetPos) (posAt s (position unit)) < 1
                then setUnit s uid
                       (unit\<lparr>path := Some rest,
                             isMoving := (if rest = [] then False else isMoving unit)\<rparr>)
                else advance deltaTime s unit targetPos
              else s
          | _ \<Rightarrow> s))"

text \<open>
  The block \<open>// Handle combat\<close>.  The damage gate compares the floors of the game time
  after this tick and of that time minus the tick's delta.
\<close>

definition attackDue :: "real \<Rightarrow> real \<Rightarrow> bool" where
  "attackDue gt deltaTime = (\<lfloor>gt\<rfloor> > \<lfloor>fl (gt - deltaTime)\<rfloor>)"

definition applyDamage :: "GameEngine \<Rightarrow> Unit \<Rightarrow> ident \<Rightarrow> Unit \<Rightarrow> GameEngine" where
  "applyDamage s unit tid target =
     (let damage = max 1 (fl (attack unit - fl (defense target / 2)));
          h = fl (health target - damage)
      in if h \<le> 0 then
           (let s' = setUnit s tid (target\<lparr>health := 0, isDead := True\<rparr>)
            in case map_of (players s') (playerId target) of
                 None \<Rightarrow> s'
               | Some player \<Rightarrow>
                   setPlayer s' (playerId target)
                     (player\<lparr>playerUnits := filter (\<lambda>u. u \<noteq> tid) (playerUnits player)\<rparr>))
         else setUnit s tid (target\<lparr>health := h\<rparr>))"

definition handleCombat :: "real \<Rightarrow> GameEngine \<Rightarrow> ident \<Rightarrow> GameEngine" where
  "handleCombat deltaTime s uid =
     (case map_of (units s) uid of
        None \<Rightarrow> s
      | Some unit \<Rightarrow>
          if \<not> isAttacking unit then s
          else
            (case targetId unit of
               None \<Rightarrow> s
             | Some tid \<Rightarrow>
                (let lapse = setUnit s uid (unit\<lparr>isAttacking := False, targetId := None\<rparr>)
                 in case map_of (units s) tid of
                      None \<Rightarrow> lapse
                    | Some target \<Rightarrow>
                        if isDead target then lapse
                        else if \<not> canUnitAttackTarget unit target then lapse
                        else if distanceFrom (posAt s (position target)) (posAt s (position unit))
                                  \<le> fl (unitRange unit * 20)
                        then (if attackDue (gameTime s) deltaTime
                              then applyDamage s unit tid target else s)
                        else advance deltaTime s unit (position target))))"

text \<open>The callback of \<open>updateUnits\<close> for one unit of the snapshot, and the pass.\<close>

definition updateUnit :: "real \<Rightarrow> ident \<Rightarrow> GameEngine \<Rightarrow> GameEngine" where
  "updateUnit deltaTime uid s =
     (case map_of (units s) uid of
        None \<Rightarrow> s
      | Some unit \<Rightarrow>
          if isDead unit then s
          else handleCombat deltaTime
                 (handleMovement deltaTime (checkForAutoTarget s uid) uid) uid)"

definition updateUnits :: "real \<Rightarrow> GameEngine \<Rightarrow> GameEngine" where
  "updateUnits deltaTime s = fold (updateUnit deltaTime) (map fst (units s)) s"

definition respawn :: "real \<Rightarrow> Resource \<Rightarrow> Resource" where
  "respawn deltaTime resource =
     (if isCollected resource then
        (let t = fl (respawnTime resource - deltaTime)
         in if t \<le> 0
            then resource\<lparr>respawnTime := RESOURCE_respawnTime, isCollected := False,
                          amount := RESOURCE_amount (resourceType resource)\<rparr>
            else resource\<lparr>respawnTime := t\<rparr>)
      else resource)"

definition updateResources :: "real \<Rightarrow> GameEngine \<Rightarrow> GameEngine" where
  "updateResources deltaTime s =
     s\<lparr>resources := map (\<lambda>(rid, resource). (rid, respawn deltaTime resource)) (resources s)\<rparr>"

text \<open>
  \<open>collectResources\<close>: \<open>nearResource\<close> is the predicate given to \<open>find\<close>, \<open>collectFor\<close> the
  callback of the inner loop over the players, \<open>collectResource\<close> the callback of the outer
  loop over the resources.
\<close>

definition collectionRange :: real where
  "collectionRange = 30"

definition nearResource :: "GameEngine \<Rightarrow> Resource \<Rightarrow> ident \<Rightarrow> bool" where
  "nearResource s resource uid =
     (case map_of (units s) uid of
        None \<Rightarrow> False
      | Some unit \<Rightarrow>
          if isDead unit then False
          else if unitType unit \<noteq> SOLDIER then False
          else distanceFrom (posAt s (position unit)) (posAt s (resourcePosition resource))
                 < collectionRange)"

definition collectFor :: "ident \<Rightarrow> ident \<Rightarrow> GameEngine \<Rightarrow> GameEngine" where
  "collectFor rid pid s =
     (case map_of (resources s) rid of
        None \<Rightarrow> s
      | Some resource \<Rightarrow>
         (case map_of (players s) pid of
            None \<Rightarrow> s
          | Some player \<Rightarrow>
             (case find (nearResource s resource) (playerUnits player) of
                None \<Rightarrow> s
              | Some nearbyUnit \<Rightarrow>
                  s\<lparr>players := AList.update pid
                       (player\<lparr>money := fl (money player + amount resource)\<rparr>) (players s),
                    resources := AList.update rid
                       (resource\<lparr>isCollected := True\<rparr>) (resources s)\<rparr>)))"

definition collectResource :: "ident \<Rightarrow> GameEngine \<Rightarrow> GameEngine" where
  "collectResource rid s =
     (case map_of (resources s) rid of
        None \<Rightarrow> s
      | Some resource \<Rightarrow>
          if isCollected resource then s
          else fold (collectFor rid) (map fst (players s)) s)"

definition collectResources :: "GameEngine \<Rightarrow> GameEngine" where
  "collectResources s = fold collectResource (map fst (resources s)) s"

text \<open>\<open>update\<close>; \<open>now\<close> is the reading of \<open>Date.now()\<close>, in milliseconds.\<close>

definition deltaOf :: "GameEngine \<Rightarrow> real \<Rightarrow> real" where
  "deltaOf s now = fl (fl (now - lastUpdateTime s) / 1000)"

definition update :: "GameEngine \<Rightarrow> real \<Rightarrow> GameEngine" where
  "update s now =
     (let deltaTime = deltaOf s now;
          s1 = s\<lparr>lastUpdateTime := now, gameTime := fl (gameTime s + deltaTime)\<rparr>
      in collectResources (updateResources deltaTime (updateUnits deltaTime s1)))"

section \<open>Reachable engine states\<close>

text \<open>
  The states an engine can be in: the constructed engine, and whatever the public methods
  make of a reachable state, for any arguments; a position a caller shares is an object of
  the heap.
\<close>

inductive step :: "GameEngine \<Rightarrow> GameEngine \<Rightarrow> bool" where
  s_addPlayer: "step s (snd (addPlayer s nm fac r1 r2))"
| s_createUnit: "known s arg \<Longrightarrow> step s (snd (createUnit s key ty arg))"
| s_moveUnit: "known s arg \<Longrightarrow> step s (snd (moveUnit s uid arg))"
| s_attackUnit: "step s (snd (attackUnit s aid tid))"
| s_update: "step s (update s now)"

inductive reachable :: "GameEngine \<Rightarrow> bool" where
  r_new: "reachable (newGameEngine w h now rnd)"
| r_step: "reachable s \<Longrightarrow> step s s' \<Longrightarrow> reachable s'"

section \<open>Example engines\<close>

text \<open>
  A 264 by 264 map whose random draws are all 0, so that the fifteen resource nodes lie at
  (100, 100); then two players admitted with the draws 5/16, 5/16, whose bases both lie at
  (120, 120).
\<close>

definition engine0 :: GameEngine where
  "engine0 = newGameEngine 264 264 0 (\<lambda>i. 0)"

definition engine1 :: GameEngine where
  "engine1 = snd (addPlayer engine0 ''A'' USA (5 / 16) (5 / 16))"

definition engine2 :: GameEngine where
  "engine2 = snd (addPlayer engine1 ''B'' CHINA (5 / 16) (5 / 16))"


text \<open>
  The engines that follow are written with \<open>arena\<close>: the map above with given players,
  units, resource nodes, game time, last clock reading, identity counter and the position
  objects created after the fifteen resource spots.  Resource \<open>i\<close> lies on spot \<open>i\<close>.
  \<open>camp\<close> holds the objects of the two admissions: base, first soldier, second soldier,
  for each player.  \<open>engaged\<close> is a unit of \<open>UNIT_STATS\<close> standing on a given object with a
  given health and target.

  A first tick at clock reading 0 (\<open>engine3\<close>), a tank bought by player A (\<open>engine4\<close>), and
  three ticks one second apart (\<open>engine5\<close> to \<open>engine7\<close>).  From \<open>engine4\<close>: a fourth unit
  for A (\<open>engine4s\<close>), a helicopter for B (\<open>engine4h\<close>).  From \<open>engine2\<close>: a move order
  followed by an attack order (\<open>engine2m\<close>), and ticks at the clock readings 500, 1000,
  1500, 2000 and 2300 (\<open>volley1\<close> to \<open>volley5\<close>).

  From \<open>engine3\<close>: a tank bought by player B, two ticks, a move order that sends soldier 16
  to where it stands, and a third tick (\<open>siege4\<close> to \<open>siege7\<close>).  From \<open>engine7\<close>: a soldier
  bought by player B and placed on the position object of the dead soldier 19, a move order
  for it, and a tick (\<open>twin8\<close> to \<open>twin10\<close>).

  From \<open>engine1\<close>, where player A is alone: \<open>harvest j\<close> is the engine after \<open>j\<close> ticks thirty
  seconds apart, the first at clock reading 0; \<open>recruit\<close> is one purchase by player A;
  \<open>army\<close> is \<open>harvest 11\<close> after the purchases \<open>drafts\<close>; \<open>outpost\<close> holds the objects of the one
  admission.  \<open>enlist tys m n\<close> follows a balance \<open>m\<close> and a roster length \<open>n\<close> through the
  purchases \<open>tys\<close>, \<open>None\<close> when one of them is refused.
\<close>

definition nodes :: "bool \<Rightarrow> real \<Rightarrow> (ident \<times> Resource) list" where
  "nodes c t = map (\<lambda>i. (i, \<lparr>resourceType = MONEY, resourcePosition = i,
                               amount = 150, respawnTime = t, isCollected = c\<rparr>))
                 [0, 1, 2, 3, 4, 5, 6, 7, 8, 9, 10, 11, 12, 13, 14]"

definition arena ::
  "(ident \<times> Player) list \<Rightarrow> (ident \<times> Unit) list \<Rightarrow> (ident \<times> Resource) list \<Rightarrow>
   real \<Rightarrow> real \<Rightarrow> nat \<Rightarrow> Position list \<Rightarrow> GameEngine" where
  "arena ps us rs gt lut n hp =
     \<lparr>players = ps, units = us, resources = rs, gameTime = gt, mapWidth = 264, mapHeight = 264,
      lastUpdateTime = lut,
      resourceSpots = [0, 1, 2, 3, 4, 5, 6, 7, 8, 9, 10, 11, 12, 13, 14],
      uuidCount = n,
      heap = map (\<lambda>i. \<lparr>px = 100, py = 100\<rparr>)
               [0, 1, 2, 3, 4, 5, 6, 7, 8, 9, 10, 11, 12, 13, 14::nat] @ hp\<rparr>"

definition camp :: "Position list" where
  "camp = [\<lparr>px = 120, py = 120\<rparr>, \<lparr>px = 100, py = 100\<rparr>, \<lparr>px = 140, py = 100\<rparr>,
           \<lparr>px = 120, py = 120\<rparr>, \<lparr>px = 100, py = 100\<rparr>, \<lparr>px = 140, py = 100\<rparr>]"

definition playerA :: "real \<Rightarrow> ident list \<Rightarrow> Player" where
  "playerA m r = \<lparr>playerName = ''A'', faction = USA, money = m, playerUnits = r,
                  basePosition = 15, color = ''#FF5733''\<rparr>"

definition playerB :: "real \<Rightarrow> ident list \<Rightarrow> Player" where
  "playerB m r = \<lparr>playerName = ''B'', faction = CHINA, money = m, playerUnits = r,
                  basePosition = 18, color = ''#33FF57''\<rparr>"

definition engaged :: "UnitType \<Rightarrow> ref \<Rightarrow> ident \<Rightarrow> ident option \<Rightarrow> real \<Rightarrow> Unit" where
  "engaged ty a pid tgt h =
     (UNIT_STATS ty a pid)
       \<lparr>health := h, targetId := tgt, isAttacking := (tgt \<noteq> None)\<rparr>"

definition engine3 :: GameEngine where
  "engine3 = update engine2 0"

definition engine4 :: GameEngine where
  "engine4 = snd (createUnit engine3 (Uuid 15) TANK (NewObject \<lparr>px = 100, py = 100\<rparr>))"

definition engine5 :: GameEngine where
  "engine5 = update engine4 1000"

definition engine6 :: GameEngine where
  "engine6 = update engine5 2000"

definition engine7 :: GameEngine where
  "engine7 = update engine6 3000"

definition volley1 :: GameEngine where
  "volley1 = update engine2 500"

definition volley2 :: GameEngine where
  "volley2 = update volley1 1000"

definition volley3 :: GameEngine where
  "volley3 = update volley2 1500"

definition volley4 :: GameEngine where
  "volley4 = update volley3 2000"

definition volley5 :: GameEngine where
  "volley5 = update volley4 2300"

definition engine4s :: GameEngine where
  "engine4s = snd (createUnit engine4 (Uuid 15) SOLDIER (NewObject \<lparr>px = 140, py = 100\<rparr>))"

definition engine4h :: GameEngine where
  "engine4h = snd (createUnit engine4 (Uuid 18) HELICOPTER (NewObject \<lparr>px = 100, py = 100\<rparr>))"

definition engine2m :: GameEngine where
  "engine2m = snd (attackUnit (snd (moveUnit engine2 16 (NewObject \<lparr>px = 200, py = 200\<rparr>))) 16 19)"

definition siege4 :: GameEngine where
  "siege4 = snd (createUnit engine3 (Uuid 18) TANK (NewObject \<lparr>px = 100, py = 100\<rparr>))"

definition siege5 :: GameEngine where
  "siege5 = update siege4 1000"

definition siege6 :: GameEngine where
  "siege6 = update siege5 2000"

definition siege6m :: GameEngine where
  "siege6m = snd (moveUnit siege6 16 (NewObject \<lparr>px = 100, py = 100\<rparr>))"

definition siege7 :: GameEngine where
  "siege7 = update siege6m 3000"




definition outpost :: "Position list" where
  "outpost = [\<lparr>px = 120, py = 120\<rparr>, \<lparr>px = 100, py = 100\<rparr>, \<lparr>px = 140, py = 100\<rparr>]"

fun harvest :: "nat \<Rightarrow> GameEngine" where
  "harvest 0 = engine1"
| "harvest (Suc j) = update (harvest j) (30000 * real j)"

definition recruit :: "UnitType \<Rightarrow> GameEngine \<Rightarrow> GameEngine" where
  "recruit ty s = snd (createUnit s (Uuid 15) ty (NewObject \<lparr>px = 100, py = 100\<rparr>))"

definition drafts :: "UnitType list" where
  "drafts =
    [SOLDIER, SOLDIER, HELICOPTER, SOLDIER, SOLDIER, HELICOPTER, SOLDIER, SOLDIER, SOLDIER,
     SOLDIER, SOLDIER, HELICOPTER, TANK, SOLDIER, SOLDIER, SOLDIER, HELICOPTER, SOLDIER,
     SOLDIER, SOLDIER, SOLDIER, SOLDIER, SOLDIER, SOLDIER, SOLDIER, SOLDIER, SOLDIER, SOLDIER,
     SOLDIER, HELICOPTER, SOLDIER, SOLDIER, SOLDIER, SOLDIER]"

definition army :: GameEngine where
  "army = fold recruit drafts (harvest 11)"

fun enlist :: "UnitType list \<Rightarrow> real \<Rightarrow> nat \<Rightarrow> (real \<times> nat) option" where
  "enlist [] m n = Some (m, n)"
| "enlist (ty # tys) m n =
     (if m < unitCost ty n then None else enlist tys (fl (m - unitCost ty n)) (Suc n))"

section \<open>State predicates\<close>

text \<open>
  \<open>objectsOf\<close>: the position objects a unit refers to, its position and its waypoints.
  \<open>unshared s a\<close>: no living unit stands on the object \<open>a\<close>.  \<open>grounded\<close>: the objects the
  units refer to are objects of the heap.
  \<open>exclusiveModes\<close>: no unit is both moving and attacking.  \<open>deadIdle\<close>: a dead unit is
  neither moving nor attacking.  \<open>solvent\<close>: no balance is
  negative; \<open>stocked\<close>: no resource amount is negative.  \<open>rosterOf\<close>: the roster of a player
  identity (empty when the identity names no player).  \<open>unitSound\<close>: a unit's identity was
  issued by the counter, a dead unit has health 0 and is off its owner's roster, a living
  unit has positive health.  \<open>persists s s'\<close>: every unit of \<open>s\<close> is still in the unit map of
  \<open>s'\<close>, and is dead there if it was dead in \<open>s\<close>.
\<close>

definition objectsOf :: "Unit \<Rightarrow> ref list" where
  "objectsOf u = position u # (case path u of None \<Rightarrow> [] | Some waypoints \<Rightarrow> waypoints)"

definition unshared :: "GameEngine \<Rightarrow> ref \<Rightarrow> bool" where
  "unshared s a = list_all (\<lambda>(uid, u). isDead u \<or> position u \<noteq> a) (units s)"

definition exclusiveModes :: "GameEngine \<Rightarrow> bool" where
  "exclusiveModes s = list_all (\<lambda>(uid, u). \<not> (isMoving u \<and> isAttacking u)) (units s)"

definition deadIdle :: "GameEngine \<Rightarrow> bool" where
  "deadIdle s = list_all (\<lambda>(uid, u). isDead u \<longrightarrow> \<not> isMoving u \<and> \<not> isAttacking u) (units s)"

definition solvent :: "GameEngine \<Rightarrow> bool" where
  "solvent s = list_all (\<lambda>(pid, p). 0 \<le> money p) (players s)"

definition stocked :: "GameEngine \<Rightarrow> bool" where
  "stocked s = list_all (\<lambda>(rid, r). 0 \<le> amount r) (resources s)"

definition rosterOf :: "GameEngine \<Rightarrow> ident \<Rightarrow> ident list" where
  "rosterOf s pid = (case map_of (players s) pid of None \<Rightarrow> [] | Some p \<Rightarrow> playerUnits p)"

definition unitSound :: "GameEngine \<Rightarrow> ident \<times> Unit \<Rightarrow> bool" where
  "unitSound s e =
     (case e of (uid, u) \<Rightarrow>
        uid < uuidCount s \<and>
        (if isDead u then health u = 0 \<and> uid \<notin> set (rosterOf s (playerId u))
         else 0 < health u))"

definition unitsSound :: "GameEngine \<Rightarrow> bool" where
  "unitsSound s = list_all (unitSound s) (units s)"

definition persists :: "GameEngine \<Rightarrow> GameEngine \<Rightarrow> bool" where
  "persists s s' =
     (\<forall>uid u. map_of (units s) uid = Some u \<longrightarrow>
        (\<exists>u'. map_of (units s') uid = Some u' \<and> (isDead u \<longrightarrow> isDead u')))"

definition grounded :: "GameEngine \<Rightarrow> bool" where
  "grounded s =
     list_all (\<lambda>(uid, u). list_all (\<lambda>a. a < length (heap s)) (objectsOf u)) (units s)"

section \<open>Rounding: evaluation and sign\<close>

lemma normalise_fixed:
  "2 ^ 52 \<le> m \<Longrightarrow> m < 2 ^ 53 \<Longrightarrow> normalise n m u = (m, u)"
  by (cases n) (simp_all del: power_numeral)

lemma minUlp_less: "j < 1074 \<Longrightarrow> minUlp < 1 / 2 ^ j"
  unfolding minUlp_def
  by (simp add: field_simps del: power_numeral)

lemma normalise_up:
  "2 ^ 52 \<le> m * 2 ^ k \<Longrightarrow> m * 2 ^ k < 2 ^ 53 \<Longrightarrow> k \<le> n \<Longrightarrow> u = 1 / 2 ^ j \<Longrightarrow> j + k \<le> 1074
   \<Longrightarrow> normalise n m u = (m * 2 ^ k, u / 2 ^ k)"
proof (induction k arbitrary: n m u j)
  case 0
  then show ?case by (simp add: normalise_fixed)
next
  case (Suc k)
  obtain n' where n: "n = Suc n'" using Suc.prems(3) by (cases n) auto
  have "0 < m" using Suc.prems(1)
    by (smt (verit) mult_nonpos_nonneg zero_le_power zero_less_power)
  have "(1::real) \<le> 2 ^ k" by simp
  then have "m * 1 \<le> m * 2 ^ k" using \<open>0 < m\<close> by (intro mult_left_mono) auto
  then have "m * 2 \<le> m * 2 ^ Suc k" by simp
  then have lt: "m < 2 ^ 52" using Suc.prems(2) by simp
  then have nge: "\<not> 2 ^ 53 \<le> m" by simp
  have gu: "minUlp < u" using Suc.prems(4,5) minUlp_less[of j] by simp
  have ih: "normalise n' (m * 2) (u / 2) = (m * 2 * 2 ^ k, u / 2 / 2 ^ k)"
    using Suc.prems n by (intro Suc.IH[where j = "Suc j"]) (simp_all add: mult_ac)
  show ?case using lt nge gu ih n by (simp add: mult_ac del: power_numeral)
qed

lemma normalise_down:
  "2 ^ 52 \<le> m / 2 ^ k \<Longrightarrow> m / 2 ^ k < 2 ^ 53 \<Longrightarrow> k \<le> n
   \<Longrightarrow> normalise n m u = (m / 2 ^ k, u * 2 ^ k)"
proof (induction k arbitrary: n m u)
  case 0
  then show ?case by (simp add: normalise_fixed)
next
  case (Suc k)
  obtain n' where n: "n = Suc n'" using Suc.prems(3) by (cases n) auto
  have a: "(2::real) ^ 52 * 2 ^ Suc k \<le> m"
    using Suc.prems(1) by (simp add: field_simps del: power_numeral)
  have b: "(2::real) ^ 52 * 2 \<le> 2 ^ 52 * 2 ^ Suc k" by (intro mult_left_mono) auto
  have "(2::real) ^ 52 * 2 \<le> m" using b a by (rule order_trans)
  then have ge: "2 ^ 53 \<le> m" by simp
  have ih: "normalise n' (m / 2) (u * 2) = (m / 2 / 2 ^ k, u * 2 * 2 ^ k)"
    using Suc.prems n by (intro Suc.IH) (simp_all add: mult_ac)
  show ?case using ge ih n by (simp add: mult_ac del: power_numeral)
qed

lemma fl_up:
  assumes "2 ^ 52 \<le> \<bar>v\<bar> * 2 ^ k" "\<bar>v\<bar> * 2 ^ k < 2 ^ 53" "k \<le> 1074"
  shows "fl v = sgn v * of_int (rne (\<bar>v\<bar> * 2 ^ k)) / 2 ^ k"
proof -
  have "v \<noteq> 0" using assms(1) by auto
  moreover have "normalise 2200 \<bar>v\<bar> 1 = (\<bar>v\<bar> * 2 ^ k, 1 / 2 ^ k)"
    using assms by (intro normalise_up[where j = 0]) auto
  ultimately show ?thesis by (simp add: fl_def)
qed

lemma fl_zero [simp]: "fl 0 = 0"
  by (simp add: fl_def)

lemma normalise_nonneg:
  "0 \<le> m \<Longrightarrow> 0 \<le> u \<Longrightarrow> 0 \<le> fst (normalise n m u) \<and> 0 \<le> snd (normalise n m u)"
  by (induction n m u rule: normalise.induct) (simp_all del: power_numeral)

lemma rne_nonneg: "0 \<le> v \<Longrightarrow> 0 \<le> rne v"
  by (simp add: rne_def Let_def)

lemma fl_nonneg: "0 \<le> v \<Longrightarrow> 0 \<le> fl v"
  using normalise_nonneg[of "\<bar>v\<bar>" 1 2200] rne_nonneg[of "fst (normalise 2200 \<bar>v\<bar> 1)"]
  by (auto simp: fl_def split: prod.splits)

lemma js_0_1_val: "js_0_1 = 3602879701896397 / 36028797018963968"
  unfolding js_0_1_def using fl_up[of "1 / 10" 56] by (simp add: rne_def)

lemma fl_one: "fl 1 = 1"
  using fl_up[of 1 52] by (simp add: rne_def)

lemma unitCost_SOLDIER_0: "unitCost SOLDIER 0 = 150"
  using fl_up[of 150 45] by (simp add: unitCost_def fl_one rne_def)

lemma unitCost_SOLDIER_1: "unitCost SOLDIER 1 = 165"
proof -
  have a: "fl (1 * (3602879701896397 / 36028797018963968)) = 3602879701896397 / 36028797018963968"
    using fl_up[of "3602879701896397 / 36028797018963968" 56] by (simp add: rne_def)
  have b: "fl (1 + 3602879701896397 / 36028797018963968) = 2476979795053773 / 2251799813685248"
    using fl_up[of "1 + 3602879701896397 / 36028797018963968" 52] by (simp add: rne_def)
  have c: "fl (150 * (2476979795053773 / 2251799813685248)) = 165"
    using fl_up[of "150 * (2476979795053773 / 2251799813685248)" 45] by (simp add: rne_def)
  have "unitCost SOLDIER 1 = of_int \<lfloor>165::real\<rfloor>"
    by (simp only: unitCost_def Let_def js_0_1_val BASE_UNIT_COSTS.simps of_nat_1 a b c)
  then show ?thesis by simp
qed

lemma unitCost_TANK_2: "unitCost TANK 2 = 540"
proof -
  have a: "fl (2 * (3602879701896397 / 36028797018963968)) = 3602879701896397 / 18014398509481984"
    using fl_up[of "2 * (3602879701896397 / 36028797018963968)" 55] by (simp add: rne_def)
  have b: "fl (1 + 3602879701896397 / 18014398509481984) = 5404319552844595 / 4503599627370496"
    using fl_up[of "1 + 3602879701896397 / 18014398509481984" 52] by (simp add: rne_def)
  have c: "fl (450 * (5404319552844595 / 4503599627370496)) = 540"
    using fl_up[of "450 * (5404319552844595 / 4503599627370496)" 43] by (simp add: rne_def)
  have "unitCost TANK 2 = of_int \<lfloor>540::real\<rfloor>"
    by (simp only: unitCost_def Let_def js_0_1_val BASE_UNIT_COSTS.simps of_nat_numeral a b c)
  then show ?thesis by simp
qed

lemma unitCost_HELICOPTER_4: "unitCost HELICOPTER 4 = 979"
proof -
  have a: "fl (4 * (3602879701896397 / 36028797018963968)) = 3602879701896397 / 9007199254740992"
    using fl_up[of "4 * (3602879701896397 / 36028797018963968)" 54] by (simp add: rne_def)
  have b: "fl (1 + 3602879701896397 / 9007199254740992) = 3152519739159347 / 2251799813685248"
    using fl_up[of "1 + 3602879701896397 / 9007199254740992" 52] by (simp add: rne_def)
  have c: "fl (700 * (3152519739159347 / 2251799813685248)) = 8620171161763839 / 8796093022208"
    using fl_up[of "700 * (3152519739159347 / 2251799813685248)" 43] by (simp add: rne_def)
  have "unitCost HELICOPTER 4 = of_int \<lfloor>8620171161763839 / 8796093022208 :: real\<rfloor>"
    by (simp only: unitCost_def Let_def js_0_1_val BASE_UNIT_COSTS.simps of_nat_numeral a b c)
  then show ?thesis by simp
qed


lemma rne_of_int [simp]: "rne (of_int z) = z"
  by (simp add: rne_def)

lemma fl_exact:
  assumes "2 ^ 52 \<le> \<bar>v\<bar> * 2 ^ k" "\<bar>v\<bar> * 2 ^ k < 2 ^ 53" "k \<le> 1074" "\<bar>v\<bar> * 2 ^ k = of_int z"
  shows "fl v = v"
proof -
  have "fl v = sgn v * (\<bar>v\<bar> * 2 ^ k) / 2 ^ k"
    using fl_up[OF assms(1-3)] assms(4) by simp
  then show ?thesis by (simp add: sgn_mult_abs)
qed

lemma ex_scale:
  fixes v :: real
  assumes "1 \<le> v" "v < 2 ^ 53"
  shows "\<exists>k\<le>52. 2 ^ 52 \<le> v * 2 ^ k \<and> v * 2 ^ k < 2 ^ 53"
proof -
  define P where "P k \<longleftrightarrow> (2::real) ^ 52 \<le> v * 2 ^ k" for k
  define k where "k = (LEAST k. P k)"
  have "(2::real) ^ 52 * 1 \<le> 2 ^ 52 * v" using assms(1) by (intro mult_left_mono) auto
  then have P52: "P 52" by (simp add: P_def mult.commute)
  then have Pk: "P k" unfolding k_def by (rule LeastI)
  have kle: "k \<le> 52" unfolding k_def using P52 by (rule Least_le)
  have "v * 2 ^ k < 2 ^ 53"
  proof (cases k)
    case 0
    then show ?thesis using assms(2) by simp
  next
    case (Suc j)
    then have "j < k" by simp
    then have "\<not> P j" unfolding k_def by (rule not_less_Least)
    then have "v * 2 ^ j < 2 ^ 52" by (simp add: P_def)
    then show ?thesis using Suc by simp
  qed
  then show ?thesis using Pk kle by (auto simp: P_def)
qed

lemma fl_of_int: "\<bar>n\<bar> < 2 ^ 53 \<Longrightarrow> fl (of_int n) = of_int n"
proof (cases "n = 0")
  case True
  then show ?thesis by simp
next
  case False
  assume b: "\<bar>n\<bar> < 2 ^ 53"
  have "1 \<le> \<bar>n\<bar>" using False by simp
  then have 1: "1 \<le> \<bar>real_of_int n\<bar>" by (metis of_int_1_le_iff of_int_abs)
  have "real_of_int \<bar>n\<bar> < of_int (2 ^ 53)" using b by (simp only: of_int_less_iff)
  then have 2: "\<bar>real_of_int n\<bar> < 2 ^ 53" by simp
  obtain k where k: "k \<le> 52" "2 ^ 52 \<le> \<bar>real_of_int n\<bar> * 2 ^ k" "\<bar>real_of_int n\<bar> * 2 ^ k < 2 ^ 53"
    using ex_scale[OF 1 2] by blast
  have z: "\<bar>real_of_int n\<bar> * 2 ^ k = of_int (\<bar>n\<bar> * 2 ^ k)" by simp
  have "k \<le> 1074" using k(1) by simp
  then show ?thesis using k(2,3) z by (intro fl_exact[where k = k and z = "\<bar>n\<bar> * 2 ^ k"])
qed

lemma fl_numeral [simp]: "numeral w < (2 ^ 53 :: int) \<Longrightarrow> fl (numeral w) = numeral w"
  using fl_of_int[of "numeral w"] by simp

lemma fl_neg_numeral [simp]: "numeral w < (2 ^ 53 :: int) \<Longrightarrow> fl (- numeral w) = - numeral w"
  using fl_of_int[of "- numeral w"] by simp

section \<open>Unit creation and player admission\<close>

lemma alloc_fields [simp]:
  "fst (alloc s p) = length (heap s)"
  "heap (snd (alloc s p)) = heap s @ [p]"
  "players (snd (alloc s p)) = players s"
  "units (snd (alloc s p)) = units s"
  "resources (snd (alloc s p)) = resources s"
  "uuidCount (snd (alloc s p)) = uuidCount s"
  "mapWidth (snd (alloc s p)) = mapWidth s"
  "mapHeight (snd (alloc s p)) = mapHeight s"
  "gameTime (snd (alloc s p)) = gameTime s"
  "lastUpdateTime (snd (alloc s p)) = lastUpdateTime s"
  "resourceSpots (snd (alloc s p)) = resourceSpots s"
  by (simp_all add: alloc_def)

lemma passed_fields [simp]:
  "players (snd (passed s arg)) = players s"
  "units (snd (passed s arg)) = units s"
  "resources (snd (passed s arg)) = resources s"
  "uuidCount (snd (passed s arg)) = uuidCount s"
  "mapWidth (snd (passed s arg)) = mapWidth s"
  "mapHeight (snd (passed s arg)) = mapHeight s"
  "gameTime (snd (passed s arg)) = gameTime s"
  "lastUpdateTime (snd (passed s arg)) = lastUpdateTime s"
  "resourceSpots (snd (passed s arg)) = resourceSpots s"
  by (simp_all add: passed_def split: PositionArg.split)

lemma passed_NewObject [simp]:
  "fst (passed s (NewObject p)) = length (heap s)"
  "heap (snd (passed s (NewObject p))) = heap s @ [p]"
  by (simp_all add: passed_def)

lemma passed_Shared [simp]: "passed s (Shared a) = (a, s)"
  by (simp add: passed_def)


lemma createUnit_success:
  assumes "map_of (players s) pid = Some p"
    and "\<not> money p < unitCost ty (length (playerUnits p))"
  shows "createUnit s (Uuid pid) ty arg =
     (Inr (Some (uuidCount s)),
      (snd (passed s arg))
       \<lparr>players := AList.update pid
           (p\<lparr>money := fl (money p - unitCost ty (length (playerUnits p))),
              playerUnits := playerUnits p @ [uuidCount s]\<rparr>) (players s),
        units := AList.update (uuidCount s) (UNIT_STATS ty (fst (passed s arg)) pid) (units s),
        uuidCount := Suc (uuidCount s)\<rparr>)"
  using assms passed_fields[of s arg]
  by (cases "passed s arg") (simp add: createUnit_def Let_def)

lemma createUnit_failure:
  assumes "map_of (players s) pid = Some p"
    and "money p < unitCost ty (length (playerUnits p))"
  shows "createUnit s (Uuid pid) ty arg = (Inr None, s)"
  using assms by (simp add: createUnit_def Let_def)

lemma createUnit_cases:
  "createUnit s key ty arg = (Inl TypeError, s) \<or> createUnit s key ty arg = (Inr None, s) \<or>
   (\<exists>pid p. key = Uuid pid \<and> map_of (players s) pid = Some p \<and>
      \<not> money p < unitCost ty (length (playerUnits p)) \<and>
      createUnit s key ty arg =
        (Inr (Some (uuidCount s)),
         (snd (passed s arg))
          \<lparr>players := AList.update pid
              (p\<lparr>money := fl (money p - unitCost ty (length (playerUnits p))),
                 playerUnits := playerUnits p @ [uuidCount s]\<rparr>) (players s),
           units := AList.update (uuidCount s) (UNIT_STATS ty (fst (passed s arg)) pid) (units s),
           uuidCount := Suc (uuidCount s)\<rparr>))"
proof (cases key)
  case (Name nm)
  then show ?thesis by (simp add: createUnit_def)
next
  case (Uuid pid)
  show ?thesis
  proof (cases "map_of (players s) pid")
    case None
    then show ?thesis using Uuid by (simp add: createUnit_def)
  next
    case (Some p)
    show ?thesis
    proof (cases "money p < unitCost ty (length (playerUnits p))")
      case True
      then show ?thesis using Uuid Some createUnit_failure[OF Some True] by simp
    next
      case False
      then show ?thesis using Uuid Some createUnit_success[OF Some False] by simp
    qed
  qed
qed

lemma moveUnit_success:
  assumes "map_of (units s) uid = Some unit" and "\<not> isDead unit"
  shows "moveUnit s uid arg =
     (True, setUnit (snd (passed s arg)) uid
        (unit\<lparr>path := Some [fst (passed s arg)], isMoving := True,
              isAttacking := False, targetId := None\<rparr>))"
  using assms by (cases "passed s arg") (simp add: moveUnit_def)

lemma moveUnit_cases:
  "moveUnit s uid arg = (False, s) \<or>
   (\<exists>unit. map_of (units s) uid = Some unit \<and> \<not> isDead unit \<and>
      moveUnit s uid arg =
        (True, setUnit (snd (passed s arg)) uid
           (unit\<lparr>path := Some [fst (passed s arg)], isMoving := True,
                 isAttacking := False, targetId := None\<rparr>)))"
proof (cases "map_of (units s) uid")
  case None
  then show ?thesis by (simp add: moveUnit_def)
next
  case (Some unit)
  then show ?thesis using moveUnit_success[OF Some]
    by (cases "isDead unit") (simp_all add: moveUnit_def)
qed

lemma unitCost_SOLDIER_Suc: "unitCost SOLDIER (Suc 0) = 165"
  using unitCost_SOLDIER_1 by simp

lemma unitCost_TANK_Suc: "unitCost TANK (Suc (Suc 0)) = 540"
  using unitCost_TANK_2 by (simp add: numeral_2_eq_2)

lemma addPlayer_result:
  "addPlayer s nm fac r1 r2 =
    (uuidCount s,
     s\<lparr>players := AList.update (uuidCount s)
          \<lparr>playerName = nm, faction = fac, money = 485,
           playerUnits = [Suc (uuidCount s), Suc (Suc (uuidCount s))],
           basePosition = length (heap s),
           color = playerColors ! (length (players s) mod length playerColors)\<rparr> (players s),
       units := AList.update (Suc (Suc (uuidCount s)))
          (UNIT_STATS SOLDIER (Suc (Suc (length (heap s)))) (uuidCount s))
          (AList.update (Suc (uuidCount s))
             (UNIT_STATS SOLDIER (Suc (length (heap s))) (uuidCount s))
             (units s)),
       uuidCount := Suc (Suc (Suc (uuidCount s))),
       heap := heap s @
          [\<lparr>px = fl (fl (r1 * fl (mapWidth s - 200)) + 100),
            py = fl (fl (r2 * fl (mapHeight s - 200)) + 100)\<rparr>,
           \<lparr>px = fl (fl (fl (r1 * fl (mapWidth s - 200)) + 100) - 20),
            py = fl (fl (fl (r2 * fl (mapHeight s - 200)) + 100) - 20)\<rparr>,
           \<lparr>px = fl (fl (fl (r1 * fl (mapWidth s - 200)) + 100) + 20),
            py = fl (fl (fl (r2 * fl (mapHeight s - 200)) + 100) - 20)\<rparr>]\<rparr>)"
  unfolding addPlayer_def Let_def
  apply (simp only: split_def)
  apply (subst createUnit_success)
    apply (simp add: AList.update_conv')
   apply (simp add: unitCost_SOLDIER_0)
  apply (simp add: unitCost_SOLDIER_0 AList.update_last del: UNIT_STATS.simps)
  apply (subst createUnit_success)
    apply (simp add: AList.update_conv')
   apply (simp add: unitCost_SOLDIER_Suc)
  apply (simp add: unitCost_SOLDIER_Suc AList.update_last del: UNIT_STATS.simps)
  apply (subst createUnit_failure)
    apply (simp add: AList.update_conv')
   apply (simp add: unitCost_TANK_Suc)
  apply (simp add: alloc_def del: UNIT_STATS.simps)
  done

lemma generateSpot_fields [simp]:
  "players (generateSpot rnd i s) = players s"
  "units (generateSpot rnd i s) = units s"
  "resources (generateSpot rnd i s) = resources s"
  "uuidCount (generateSpot rnd i s) = uuidCount s"
  "mapWidth (generateSpot rnd i s) = mapWidth s"
  "mapHeight (generateSpot rnd i s) = mapHeight s"
  "gameTime (generateSpot rnd i s) = gameTime s"
  "lastUpdateTime (generateSpot rnd i s) = lastUpdateTime s"
  by (simp_all add: generateSpot_def alloc_def)

lemma fold_generateSpot_fields:
  "players (fold (generateSpot rnd) ns s) = players s \<and>
   units (fold (generateSpot rnd) ns s) = units s \<and>
   resources (fold (generateSpot rnd) ns s) = resources s \<and>
   mapWidth (fold (generateSpot rnd) ns s) = mapWidth s \<and>
   mapHeight (fold (generateSpot rnd) ns s) = mapHeight s \<and>
   gameTime (fold (generateSpot rnd) ns s) = gameTime s \<and>
   lastUpdateTime (fold (generateSpot rnd) ns s) = lastUpdateTime s \<and>
   uuidCount (fold (generateSpot rnd) ns s) = uuidCount s"
  by (induction ns arbitrary: s) simp_all

lemma spawnResource_fields [simp]:
  "players (spawnResource i s) = players s"
  "units (spawnResource i s) = units s"
  "uuidCount (spawnResource i s) = Suc (uuidCount s)"
  "mapWidth (spawnResource i s) = mapWidth s"
  "mapHeight (spawnResource i s) = mapHeight s"
  "gameTime (spawnResource i s) = gameTime s"
  "lastUpdateTime (spawnResource i s) = lastUpdateTime s"
  "heap (spawnResource i s) = heap s"
  "resourceSpots (spawnResource i s) = resourceSpots s"
  by (simp_all add: spawnResource_def)

lemma fold_spawnResource_fields:
  "players (fold spawnResource ns s) = players s \<and>
   units (fold spawnResource ns s) = units s \<and>
   mapWidth (fold spawnResource ns s) = mapWidth s \<and>
   mapHeight (fold spawnResource ns s) = mapHeight s \<and>
   gameTime (fold spawnResource ns s) = gameTime s \<and>
   lastUpdateTime (fold spawnResource ns s) = lastUpdateTime s \<and>
   heap (fold spawnResource ns s) = heap s \<and>
   resourceSpots (fold spawnResource ns s) = resourceSpots s \<and>
   uuidCount (fold spawnResource ns s) = uuidCount s + length ns"
  by (induction ns arbitrary: s) simp_all

lemma newGameEngine_fields [simp]:
  "players (newGameEngine w h now rnd) = []"
  "units (newGameEngine w h now rnd) = []"
  "uuidCount (newGameEngine w h now rnd) = 15"
  "mapWidth (newGameEngine w h now rnd) = w"
  "mapHeight (newGameEngine w h now rnd) = h"
  "gameTime (newGameEngine w h now rnd) = 0"
  "lastUpdateTime (newGameEngine w h now rnd) = now"
  by (simp_all add: newGameEngine_def spawnResources_def fold_spawnResource_fields
      fold_generateSpot_fields mapResourceCount_def)

lemma fl_base: "fl (fl (5 / 16 * fl (264 - 200)) + 100) = 120"
  by simp

lemma upt_15: "[0..<15] = [0, 1, 2, 3, 4, 5, 6, 7, 8, 9, 10, 11, 12, 13, 14]"
  by code_simp

lemma engine0_heap:
  "heap engine0 = map (\<lambda>i. \<lparr>px = 100, py = 100\<rparr>) [0, 1, 2, 3, 4, 5, 6, 7, 8, 9, 10, 11, 12, 13, 14 :: nat]"
  by (simp add: engine0_def newGameEngine_def spawnResources_def fold_spawnResource_fields
      mapResourceCount_def upt_15 generateSpot_def alloc_def resourceSpot_def)

lemma engine0_heap_length [simp]: "length (heap engine0) = 15"
  by (simp add: engine0_heap)

lemma engine0_fields [simp]:
  "players engine0 = []" "units engine0 = []" "uuidCount engine0 = 15"
  "mapWidth engine0 = 264" "mapHeight engine0 = 264" "gameTime engine0 = 0"
  "lastUpdateTime engine0 = 0"
  by (simp_all add: engine0_def)

lemma engine1_eq:
  "engine1 = engine0
     \<lparr>players := [(15, \<lparr>playerName = ''A'', faction = USA, money = 485, playerUnits = [16, 17],
           basePosition = 15, color = ''#FF5733''\<rparr>)],
      units := [(16, UNIT_STATS SOLDIER 16 15), (17, UNIT_STATS SOLDIER 17 15)],
      uuidCount := 18,
      heap := heap engine0 @
        [\<lparr>px = 120, py = 120\<rparr>, \<lparr>px = 100, py = 100\<rparr>, \<lparr>px = 140, py = 100\<rparr>]\<rparr>"
  unfolding engine1_def addPlayer_result
  by (simp add: fl_base playerColors_def del: UNIT_STATS.simps)

lemma engine2_eq:
  "engine2 = engine0
     \<lparr>players := [(15, \<lparr>playerName = ''A'', faction = USA, money = 485, playerUnits = [16, 17],
           basePosition = 15, color = ''#FF5733''\<rparr>),
                  (18, \<lparr>playerName = ''B'', faction = CHINA, money = 485, playerUnits = [19, 20],
           basePosition = 18, color = ''#33FF57''\<rparr>)],
      units := [(16, UNIT_STATS SOLDIER 16 15), (17, UNIT_STATS SOLDIER 17 15),
                (19, UNIT_STATS SOLDIER 19 18), (20, UNIT_STATS SOLDIER 20 18)],
      uuidCount := 21,
      heap := heap engine0 @
        [\<lparr>px = 120, py = 120\<rparr>, \<lparr>px = 100, py = 100\<rparr>, \<lparr>px = 140, py = 100\<rparr>,
         \<lparr>px = 120, py = 120\<rparr>, \<lparr>px = 100, py = 100\<rparr>, \<lparr>px = 140, py = 100\<rparr>]\<rparr>"
  unfolding engine2_def addPlayer_result
  by (simp add: engine1_eq fl_base playerColors_def del: UNIT_STATS.simps)

section \<open>Dead units are left alone\<close>

lemma setUnit_fields [simp]:
  "units (setUnit s uid u) = AList.update uid u (units s)"
  "players (setUnit s uid u) = players s"
  "resources (setUnit s uid u) = resources s"
  "gameTime (setUnit s uid u) = gameTime s"
  "uuidCount (setUnit s uid u) = uuidCount s"
  "heap (setUnit s uid u) = heap s"
  by (simp_all add: setUnit_def)

lemma setPlayer_fields [simp]:
  "units (setPlayer s pid p) = units s"
  "players (setPlayer s pid p) = AList.update pid p (players s)"
  "resources (setPlayer s pid p) = resources s"
  "gameTime (setPlayer s pid p) = gameTime s"
  "uuidCount (setPlayer s pid p) = uuidCount s"
  "heap (setPlayer s pid p) = heap s"
  by (simp_all add: setPlayer_def)

lemma advance_fields [simp]:
  "units (advance dt s u dest) = units s"
  "players (advance dt s u dest) = players s"
  "resources (advance dt s u dest) = resources s"
  "gameTime (advance dt s u dest) = gameTime s"
  "uuidCount (advance dt s u dest) = uuidCount s"
  "length (heap (advance dt s u dest)) = length (heap s)"
  by (simp_all add: advance_def Let_def)










lemma collectFor_units [simp]: "units (collectFor rid pid s) = units s"
  by (simp add: collectFor_def split: option.splits)

lemma fold_collectFor_units [simp]: "units (fold (collectFor rid) pids s) = units s"
  by (induction pids arbitrary: s) simp_all

lemma collectResource_units [simp]: "units (collectResource rid s) = units s"
  by (simp add: collectResource_def split: option.splits)

lemma collectResources_units [simp]: "units (collectResources s) = units s"
proof -
  have "units (fold collectResource rids s) = units s" for rids
    by (induction rids arbitrary: s) simp_all
  then show ?thesis by (simp add: collectResources_def)
qed

lemma updateResources_units [simp]: "units (updateResources dt s) = units s"
  by (simp add: updateResources_def)



lemma attackUnit_heap [simp]: "heap (snd (attackUnit s aid tid)) = heap s"
  by (simp add: attackUnit_def split: option.splits)

lemma checkForAutoTarget_heap [simp]: "heap (checkForAutoTarget s uid) = heap s"
  by (simp add: checkForAutoTarget_def split: option.splits)



lemma unshared_advance [simp]: "unshared (advance dt s u dest) a = unshared s a"
  by (simp add: unshared_def)

lemma unshared_setPlayer [simp]: "unshared (setPlayer s pid p) a = unshared s a"
  by (simp add: unshared_def)








lemma collectFor_heap [simp]: "heap (collectFor rid pid s) = heap s"
  by (simp add: collectFor_def split: option.splits)

lemma fold_collectFor_heap [simp]: "heap (fold (collectFor rid) pids s) = heap s"
  by (induction pids arbitrary: s) simp_all

lemma collectResource_heap [simp]: "heap (collectResource rid s) = heap s"
  by (simp add: collectResource_def split: option.splits)

lemma collectResources_heap [simp]: "heap (collectResources s) = heap s"
proof -
  have "heap (fold collectResource rids s) = heap s" for rids
    by (induction rids arbitrary: s) simp_all
  then show ?thesis by (simp add: collectResources_def)
qed

lemma updateResources_heap [simp]: "heap (updateResources dt s) = heap s"
  by (simp add: updateResources_def)


section \<open>Moving and attacking\<close>

lemma list_all_update:
  "P (k, v) \<Longrightarrow> list_all P al \<Longrightarrow> list_all P (AList.update k v al)"
  by (induction al) auto

lemma list_all_lookup:
  "list_all P al \<Longrightarrow> map_of al k = Some v \<Longrightarrow> P (k, v)"
  by (auto simp: list_all_iff dest: map_of_SomeD)

lemma excl_setUnit:
  "exclusiveModes s \<Longrightarrow> \<not> (isMoving u \<and> isAttacking u) \<Longrightarrow> exclusiveModes (setUnit s uid u)"
  by (simp add: exclusiveModes_def list_all_update)

lemma excl_lookup:
  "exclusiveModes s \<Longrightarrow> map_of (units s) uid = Some u \<Longrightarrow> \<not> (isMoving u \<and> isAttacking u)"
  using list_all_lookup[of "\<lambda>(uid, u). \<not> (isMoving u \<and> isAttacking u)" "units s" uid u]
  by (simp add: exclusiveModes_def)

lemma excl_createUnit:
  assumes "exclusiveModes s"
  shows "exclusiveModes (snd (createUnit s key ty arg))"
proof -
  have "\<not> (isMoving (UNIT_STATS ty a pid) \<and> isAttacking (UNIT_STATS ty a pid))" for a pid
    by (cases ty) simp_all
  then show ?thesis using assms createUnit_cases[of s key ty arg]
    by (auto simp: exclusiveModes_def list_all_update simp del: UNIT_STATS.simps)
qed

lemma excl_addPlayer:
  assumes "exclusiveModes s"
  shows "exclusiveModes (snd (addPlayer s nm fac r1 r2))"
proof -
  have "exclusiveModes ((snd (alloc s b))\<lparr>players := ps, uuidCount := n\<rparr>)" for ps n b
    using assms by (simp add: exclusiveModes_def)
  then show ?thesis
    by (simp add: addPlayer_def Let_def excl_createUnit split_def)
qed

lemma excl_moveUnit:
  "exclusiveModes s \<Longrightarrow> exclusiveModes (snd (moveUnit s uid pos))"
  using moveUnit_cases[of s uid pos] by (auto simp: exclusiveModes_def list_all_update)

lemma excl_attackUnit:
  "exclusiveModes s \<Longrightarrow> (\<forall>a. map_of (units s) aid = Some a \<longrightarrow> \<not> isMoving a) \<Longrightarrow>
   exclusiveModes (snd (attackUnit s aid tid))"
  by (auto simp: attackUnit_def excl_setUnit split: option.splits)

lemma excl_checkForAutoTarget:
  "exclusiveModes s \<Longrightarrow> exclusiveModes (checkForAutoTarget s uid)"
  by (auto simp: checkForAutoTarget_def excl_attackUnit split: option.splits)

lemma excl_modify:
  assumes "exclusiveModes s" and "map_of (units s) k = Some u0"
    and "isMoving u \<longrightarrow> isMoving u0" and "isAttacking u \<longrightarrow> isAttacking u0"
  shows "exclusiveModes (setUnit s uid u)"
  using assms excl_lookup[OF assms(1,2)] by (intro excl_setUnit) auto

lemma excl_setPlayer [simp]: "exclusiveModes (setPlayer s pid p) = exclusiveModes s"
  by (simp add: exclusiveModes_def)

lemma excl_handleMovement:
  assumes "exclusiveModes s"
  shows "exclusiveModes (handleMovement dt s uid)"
proof (cases "map_of (units s) uid")
  case None
  then show ?thesis using assms by (simp add: handleMovement_def)
next
  case (Some unit)
  have "exclusiveModes (setUnit s uid u)"
    if "isMoving u \<longrightarrow> isMoving unit" "isAttacking u \<longrightarrow> isAttacking unit" for u
    using assms Some that by (rule excl_modify)
  moreover have "exclusiveModes (advance dt s unit dest)" for dest
    using assms by (simp add: exclusiveModes_def)
  ultimately show ?thesis using assms Some
    by (simp add: handleMovement_def split: option.splits list.splits)
qed

lemma excl_applyDamage:
  assumes "exclusiveModes s" and "map_of (units s) tid = Some target"
  shows "exclusiveModes (applyDamage s unit tid target)"
proof -
  have "exclusiveModes (setUnit s tid u)"
    if "isMoving u \<longrightarrow> isMoving target" "isAttacking u \<longrightarrow> isAttacking target" for u
    using assms that by (rule excl_modify)
  then show ?thesis
    by (simp add: applyDamage_def Let_def split: option.splits)
qed

lemma excl_handleCombat:
  assumes "exclusiveModes s"
  shows "exclusiveModes (handleCombat dt s uid)"
proof (cases "map_of (units s) uid")
  case None
  then show ?thesis using assms by (simp add: handleCombat_def)
next
  case (Some unit)
  have "exclusiveModes (setUnit s uid u)"
    if "isMoving u \<longrightarrow> isMoving unit" "isAttacking u \<longrightarrow> isAttacking unit" for u
    using assms Some that by (rule excl_modify)
  moreover have "exclusiveModes (advance dt s unit dest)" for dest
    using assms by (simp add: exclusiveModes_def)
  ultimately show ?thesis using assms Some
    by (simp add: handleCombat_def Let_def excl_applyDamage split: option.splits)
qed

lemma excl_updateUnit:
  "exclusiveModes s \<Longrightarrow> exclusiveModes (updateUnit dt uid s)"
  by (auto simp: updateUnit_def excl_handleCombat excl_handleMovement excl_checkForAutoTarget
      split: option.splits)

lemma excl_fold_updateUnit:
  "exclusiveModes s \<Longrightarrow> exclusiveModes (fold (updateUnit dt) ids s)"
  by (induction ids arbitrary: s) (simp_all add: excl_updateUnit)

lemma excl_update:
  assumes "exclusiveModes s"
  shows "exclusiveModes (update s now)"
proof -
  have "exclusiveModes (s\<lparr>lastUpdateTime := t, gameTime := g\<rparr>)" for t g
    using assms by (simp add: exclusiveModes_def)
  then have "exclusiveModes (updateUnits dt (s\<lparr>lastUpdateTime := t, gameTime := g\<rparr>))" for dt t g
    by (simp add: updateUnits_def excl_fold_updateUnit)
  then show ?thesis
    by (simp add: update_def Let_def exclusiveModes_def)
qed

lemma idle_lookup:
  "deadIdle s \<Longrightarrow> map_of (units s) uid = Some u \<Longrightarrow> isDead u \<Longrightarrow>
   \<not> isMoving u \<and> \<not> isAttacking u"
  using list_all_lookup[of "\<lambda>(uid, u). isDead u \<longrightarrow> \<not> isMoving u \<and> \<not> isAttacking u"
      "units s" uid u]
  by (simp add: deadIdle_def)

lemma idle_createUnit:
  assumes "deadIdle s"
  shows "deadIdle (snd (createUnit s key ty arg))"
proof -
  have "\<not> isDead (UNIT_STATS ty a pid)" for a pid
    by (cases ty) simp_all
  then show ?thesis using assms createUnit_cases[of s key ty arg]
    by (auto simp: deadIdle_def list_all_update simp del: UNIT_STATS.simps)
qed

lemma idle_addPlayer:
  assumes "deadIdle s"
  shows "deadIdle (snd (addPlayer s nm fac r1 r2))"
proof -
  have "deadIdle ((snd (alloc s b))\<lparr>players := ps, uuidCount := n\<rparr>)" for ps n b
    using assms by (simp add: deadIdle_def)
  then show ?thesis
    by (simp add: addPlayer_def Let_def idle_createUnit split_def)
qed

lemma idle_moveUnit:
  "deadIdle s \<Longrightarrow> deadIdle (snd (moveUnit s uid pos))"
  using moveUnit_cases[of s uid pos] by (auto simp: deadIdle_def list_all_update)

lemma idle_attackUnit:
  "deadIdle s \<Longrightarrow> deadIdle (snd (attackUnit s aid tid))"
  by (auto simp: attackUnit_def deadIdle_def setUnit_def list_all_update split: option.splits)

section \<open>Balances\<close>

lemma fold_spawnResource_stocked:
  "stocked s \<Longrightarrow> stocked (fold spawnResource ns s)"
proof (induction ns arbitrary: s)
  case Nil
  then show ?case by simp
next
  case (Cons n ns)
  have "stocked (spawnResource n s)"
    using Cons.prems by (simp add: stocked_def spawnResource_def list_all_update RESOURCE_amount_def)
  then show ?case using Cons.IH by simp
qed

lemma newGameEngine_funds: "solvent (newGameEngine w h now rnd) \<and> stocked (newGameEngine w h now rnd)"
proof -
  have "stocked (newGameEngine w h now rnd)"
    unfolding newGameEngine_def spawnResources_def
    by (rule fold_spawnResource_stocked) (simp add: stocked_def fold_generateSpot_fields)
  then show ?thesis by (simp add: solvent_def)
qed

lemma createUnit_resources [simp]: "resources (snd (createUnit s key ty arg)) = resources s"
  using createUnit_cases[of s key ty arg] by auto

lemma createUnit_solvent:
  assumes "solvent s"
  shows "solvent (snd (createUnit s key ty arg))"
proof -
  consider "snd (createUnit s key ty arg) = s"
    | pid p where "map_of (players s) pid = Some p"
        "\<not> money p < unitCost ty (length (playerUnits p))"
        "players (snd (createUnit s key ty arg)) =
           AList.update pid
             (p\<lparr>money := fl (money p - unitCost ty (length (playerUnits p))),
                playerUnits := playerUnits p @ [uuidCount s]\<rparr>) (players s)"
    using createUnit_cases[of s key ty arg] by auto
  then show ?thesis
  proof cases
    case 1
    then show ?thesis using assms by simp
  next
    case 2
    have "0 \<le> fl (money p - unitCost ty (length (playerUnits p)))"
      using 2(2) by (intro fl_nonneg) simp
    then show ?thesis using 2(3) assms
      by (simp add: solvent_def list_all_update)
  qed
qed

lemma addPlayer_funds:
  assumes "solvent s" and "stocked s"
  shows "solvent (snd (addPlayer s nm fac r1 r2)) \<and> stocked (snd (addPlayer s nm fac r1 r2))"
  using assms by (simp add: addPlayer_result solvent_def stocked_def list_all_update)

lemma moveUnit_players [simp]: "players (snd (moveUnit s uid pos)) = players s"
  and moveUnit_resources [simp]: "resources (snd (moveUnit s uid pos)) = resources s"
  using moveUnit_cases[of s uid pos] by auto

lemma attackUnit_players [simp]: "players (snd (attackUnit s aid tid)) = players s"
  and attackUnit_resources [simp]: "resources (snd (attackUnit s aid tid)) = resources s"
  and attackUnit_uuidCount [simp]: "uuidCount (snd (attackUnit s aid tid)) = uuidCount s"
  and attackUnit_gameTime [simp]: "gameTime (snd (attackUnit s aid tid)) = gameTime s"
  by (simp_all add: attackUnit_def split: option.splits)

lemma checkForAutoTarget_fields [simp]:
  "players (checkForAutoTarget s uid) = players s"
  "resources (checkForAutoTarget s uid) = resources s"
  "uuidCount (checkForAutoTarget s uid) = uuidCount s"
  "gameTime (checkForAutoTarget s uid) = gameTime s"
  by (simp_all add: checkForAutoTarget_def split: option.splits)

lemma handleMovement_fields [simp]:
  "players (handleMovement dt s uid) = players s"
  "resources (handleMovement dt s uid) = resources s"
  "uuidCount (handleMovement dt s uid) = uuidCount s"
  "gameTime (handleMovement dt s uid) = gameTime s"
  by (simp_all add: handleMovement_def split: option.splits list.splits)

lemma applyDamage_fields [simp]:
  "resources (applyDamage s unit tid target) = resources s"
  "uuidCount (applyDamage s unit tid target) = uuidCount s"
  "gameTime (applyDamage s unit tid target) = gameTime s"
  by (simp_all add: applyDamage_def Let_def split: option.splits)

lemma handleCombat_fields [simp]:
  "resources (handleCombat dt s uid) = resources s"
  "uuidCount (handleCombat dt s uid) = uuidCount s"
  "gameTime (handleCombat dt s uid) = gameTime s"
  by (simp_all add: handleCombat_def Let_def split: option.splits)

lemma updateUnit_fields [simp]:
  "resources (updateUnit dt uid s) = resources s"
  "uuidCount (updateUnit dt uid s) = uuidCount s"
  "gameTime (updateUnit dt uid s) = gameTime s"
  by (simp_all add: updateUnit_def split: option.splits)

lemma fold_updateUnit_fields [simp]:
  "resources (fold (updateUnit dt) ids s) = resources s"
  "uuidCount (fold (updateUnit dt) ids s) = uuidCount s"
  "gameTime (fold (updateUnit dt) ids s) = gameTime s"
  by (induction ids arbitrary: s) simp_all

lemma solvent_lookup: "solvent s \<Longrightarrow> map_of (players s) pid = Some p \<Longrightarrow> 0 \<le> money p"
  using list_all_lookup[of "\<lambda>(pid, p). 0 \<le> money p" "players s" pid p]
  by (simp add: solvent_def)

lemma stocked_lookup: "stocked s \<Longrightarrow> map_of (resources s) rid = Some r \<Longrightarrow> 0 \<le> amount r"
  using list_all_lookup[of "\<lambda>(rid, r). 0 \<le> amount r" "resources s" rid r]
  by (simp add: stocked_def)

lemma advance_solvent [simp]: "solvent (advance dt s u dest) = solvent s"
  by (simp add: solvent_def)

lemma applyDamage_solvent:
  assumes "solvent s"
  shows "solvent (applyDamage s unit tid target)"
proof -
  have "solvent (setPlayer (setUnit s tid u) pid (p\<lparr>playerUnits := r\<rparr>))"
    if "map_of (players s) pid = Some p" for u pid p r
    using assms solvent_lookup[OF assms that] by (simp add: solvent_def list_all_update)
  moreover have "solvent (setUnit s tid u)" for u
    using assms by (simp add: solvent_def)
  ultimately show ?thesis
    by (simp add: applyDamage_def Let_def split: option.splits)
qed

lemma handleCombat_solvent:
  assumes "solvent s"
  shows "solvent (handleCombat dt s uid)"
proof -
  have "solvent (setUnit s k u)" for k u
    using assms by (simp add: solvent_def)
  then show ?thesis using assms
    by (simp add: handleCombat_def Let_def applyDamage_solvent split: option.splits)
qed

lemma updateUnit_solvent:
  assumes "solvent s"
  shows "solvent (updateUnit dt uid s)"
proof -
  have "solvent (handleMovement dt (checkForAutoTarget s uid) uid)"
    using assms by (simp add: solvent_def)
  then show ?thesis using assms
    by (simp add: updateUnit_def handleCombat_solvent split: option.splits)
qed

lemma fold_updateUnit_solvent:
  "solvent s \<Longrightarrow> solvent (fold (updateUnit dt) ids s)"
  by (induction ids arbitrary: s) (simp_all add: updateUnit_solvent)

lemma updateResources_stocked:
  assumes "stocked s"
  shows "stocked (updateResources dt s)"
proof -
  have "0 \<le> amount (respawn dt r)" if "0 \<le> amount r" for r
    using that by (simp add: respawn_def Let_def RESOURCE_amount_def)
  then show ?thesis using assms
    by (auto simp: stocked_def updateResources_def list_all_iff)
qed

lemma collectFor_funds:
  assumes "solvent s \<and> stocked s"
  shows "solvent (collectFor rid pid s) \<and> stocked (collectFor rid pid s)"
proof (cases "map_of (resources s) rid")
  case None
  then show ?thesis using assms by (simp add: collectFor_def)
next
  case r: (Some resource)
  show ?thesis
  proof (cases "map_of (players s) pid")
    case None
    then show ?thesis using assms r by (simp add: collectFor_def)
  next
    case p: (Some player)
    have "0 \<le> money player + amount resource"
      using assms solvent_lookup[OF _ p] stocked_lookup[OF _ r] by simp
    then have "0 \<le> fl (money player + amount resource)" by (rule fl_nonneg)
    moreover have "0 \<le> amount resource" using assms stocked_lookup[OF _ r] by simp
    ultimately show ?thesis using assms r p
      by (simp add: collectFor_def solvent_def stocked_def list_all_update split: option.splits)
  qed
qed

lemma fold_collectFor_funds:
  "solvent s \<and> stocked s \<Longrightarrow>
   solvent (fold (collectFor rid) pids s) \<and> stocked (fold (collectFor rid) pids s)"
proof (induction pids arbitrary: s)
  case Nil
  then show ?case by simp
next
  case (Cons a pids)
  show ?case using Cons.IH[OF collectFor_funds[OF Cons.prems]] by simp
qed

lemma collectResource_funds:
  "solvent s \<and> stocked s \<Longrightarrow> solvent (collectResource rid s) \<and> stocked (collectResource rid s)"
  using fold_collectFor_funds[of s rid "map fst (players s)"]
  by (simp add: collectResource_def split: option.splits)

lemma collectResources_funds:
  assumes "solvent s \<and> stocked s"
  shows "solvent (collectResources s) \<and> stocked (collectResources s)"
proof -
  have "solvent (fold collectResource rids s) \<and> stocked (fold collectResource rids s)" for rids
    using assms
  proof (induction rids arbitrary: s)
    case Nil
    then show ?case by simp
  next
    case (Cons a rids)
    show ?case using Cons.IH[OF collectResource_funds[OF Cons.prems]] by simp
  qed
  then show ?thesis by (simp add: collectResources_def)
qed

lemma update_funds:
  assumes "solvent s" and "stocked s"
  shows "solvent (update s now) \<and> stocked (update s now)"
proof -
  define s1 where "s1 = s\<lparr>lastUpdateTime := now, gameTime := fl (gameTime s + deltaOf s now)\<rparr>"
  define s2 where "s2 = updateUnits (deltaOf s now) s1"
  define s3 where "s3 = updateResources (deltaOf s now) s2"
  have "solvent s1" "stocked s1" using assms by (simp_all add: s1_def solvent_def stocked_def)
  then have "solvent s2" "stocked s2"
    by (simp_all add: s2_def updateUnits_def fold_updateUnit_solvent stocked_def)
  then have "solvent s3 \<and> stocked s3"
    using updateResources_stocked[of s2 "deltaOf s now"]
    by (simp add: s3_def solvent_def updateResources_def)
  then have "solvent (collectResources s3) \<and> stocked (collectResources s3)"
    by (rule collectResources_funds)
  then show ?thesis by (simp add: update_def Let_def s1_def s2_def s3_def)
qed

lemma step_funds:
  assumes "step s s'" and "solvent s \<and> stocked s"
  shows "solvent s' \<and> stocked s'"
  using assms
proof (cases rule: step.cases)
  case (s_addPlayer nm fac r1 r2)
  then show ?thesis using assms(2) addPlayer_funds by simp
next
  case (s_createUnit arg key ty)
  then show ?thesis using assms(2) by (simp add: createUnit_solvent stocked_def)
next
  case (s_moveUnit arg uid)
  then show ?thesis using assms(2) by (simp add: solvent_def stocked_def)
next
  case (s_attackUnit aid tid)
  then show ?thesis using assms(2) by (simp add: solvent_def stocked_def)
next
  case (s_update now)
  then show ?thesis using assms(2) update_funds by simp
qed

lemma reachable_funds: "reachable s \<Longrightarrow> solvent s \<and> stocked s"
  by (induction rule: reachable.induct) (simp_all add: newGameEngine_funds step_funds)

section \<open>Health, death and rosters\<close>

lemma unitSound_mono:
  assumes "unitSound s e" and "uuidCount s \<le> uuidCount s'"
    and "\<And>pid. set (rosterOf s' pid) \<subseteq> set (rosterOf s pid)"
  shows "unitSound s' e"
proof (cases e)
  case (Pair uid u)
  have "uid \<notin> set (rosterOf s' (playerId u))" if "uid \<notin> set (rosterOf s (playerId u))"
    using that assms(3)[of "playerId u"] by auto
  then show ?thesis using assms(1,2) Pair by (auto simp: unitSound_def)
qed

lemma unitsSound_frame:
  assumes "unitsSound s" and "units s' = units s" and "uuidCount s \<le> uuidCount s'"
    and "\<And>pid. set (rosterOf s' pid) \<subseteq> set (rosterOf s pid)"
  shows "unitsSound s'"
  using assms unitSound_mono[of s _ s'] by (auto simp: unitsSound_def list_all_iff)

lemma unitsSound_lookup:
  "unitsSound s \<Longrightarrow> map_of (units s) uid = Some u \<Longrightarrow> unitSound s (uid, u)"
  unfolding unitsSound_def by (rule list_all_lookup)

lemma rosterOf_setUnit [simp]: "rosterOf (setUnit s uid u) = rosterOf s"
  by (simp add: rosterOf_def fun_eq_iff)

lemma unitSound_setUnit [simp]: "unitSound (setUnit s uid u) = unitSound s"
  by (simp add: unitSound_def fun_eq_iff)

lemma rosterOf_advance [simp]: "rosterOf (advance dt s u dest) = rosterOf s"
  by (simp add: rosterOf_def fun_eq_iff)

lemma unitSound_advance [simp]: "unitSound (advance dt s u dest) = unitSound s"
  by (simp add: unitSound_def fun_eq_iff)

lemma unitsSound_advance [simp]: "unitsSound (advance dt s u dest) = unitsSound s"
  by (simp add: unitsSound_def)

lemma rosterOf_passed [simp]: "rosterOf (snd (passed s arg)) = rosterOf s"
  by (simp add: rosterOf_def fun_eq_iff)

lemma unitSound_passed [simp]: "unitSound (snd (passed s arg)) = unitSound s"
  by (simp add: unitSound_def fun_eq_iff)

lemma unitsSound_passed [simp]: "unitsSound (snd (passed s arg)) = unitsSound s"
  by (simp add: unitsSound_def)

lemma unitsSound_setUnit:
  "unitsSound s \<Longrightarrow> unitSound s (uid, u) \<Longrightarrow> unitsSound (setUnit s uid u)"
  by (simp add: unitsSound_def list_all_update)

text \<open>Rewriting a unit while keeping health, death flag and owner.\<close>

lemma unitsSound_modify:
  assumes "unitsSound s" and "map_of (units s) uid = Some u0"
    and "health u = health u0" and "isDead u = isDead u0" and "playerId u = playerId u0"
  shows "unitsSound (setUnit s uid u)"
proof -
  have "unitSound s (uid, u)"
    using unitsSound_lookup[OF assms(1,2)] assms(3-5) by (simp add: unitSound_def)
  then show ?thesis using assms(1) by (rule unitsSound_setUnit[rotated])
qed

lemma sound_moveUnit:
  assumes "unitsSound s"
  shows "unitsSound (snd (moveUnit s uid pos))"
proof -
  have "unitsSound (setUnit (snd (passed s pos)) uid u)"
    if "map_of (units s) uid = Some unit" "health u = health unit" "isDead u = isDead unit"
      "playerId u = playerId unit" for u unit
    using that assms by (intro unitsSound_modify[where ?u0.0 = unit]) simp_all
  then show ?thesis using assms moveUnit_cases[of s uid pos] by auto
qed

lemma sound_attackUnit: "unitsSound s \<Longrightarrow> unitsSound (snd (attackUnit s aid tid))"
  by (auto simp: attackUnit_def intro: unitsSound_modify split: option.splits)

lemma sound_checkForAutoTarget: "unitsSound s \<Longrightarrow> unitsSound (checkForAutoTarget s uid)"
  by (auto simp: checkForAutoTarget_def sound_attackUnit split: option.splits)

lemma sound_handleMovement:
  assumes "unitsSound s"
  shows "unitsSound (handleMovement dt s uid)"
proof (cases "map_of (units s) uid")
  case None
  then show ?thesis using assms by (simp add: handleMovement_def)
next
  case (Some unit)
  have "unitsSound (setUnit s uid u)"
    if "health u = health unit" "isDead u = isDead unit" "playerId u = playerId unit" for u
    using assms Some that by (rule unitsSound_modify)
  then show ?thesis using assms Some
    by (simp add: handleMovement_def split: option.splits list.splits)
qed

lemma rosterOf_setPlayer:
  "rosterOf (setPlayer s pid p) q = (if q = pid then playerUnits p else rosterOf s q)"
  by (simp add: rosterOf_def AList.update_conv')

lemma sound_applyDamage:
  assumes "unitsSound s" and "map_of (units s) tid = Some target" and "\<not> isDead target"
  shows "unitsSound (applyDamage s unit tid target)"
proof -
  define h where "h = fl (health target - max 1 (fl (attack unit - fl (defense target / 2))))"
  have lt: "tid < uuidCount s"
    using unitsSound_lookup[OF assms(1,2)] by (simp add: unitSound_def)
  show ?thesis
  proof (cases "h \<le> 0")
    case False
    then have "unitSound s (tid, target\<lparr>health := h\<rparr>)"
      using lt assms(3) by (simp add: unitSound_def)
    then have "unitsSound (setUnit s tid (target\<lparr>health := h\<rparr>))"
      using assms(1) by (rule unitsSound_setUnit[rotated])
    then show ?thesis using False by (simp add: applyDamage_def Let_def h_def)
  next
    case True
    define t' where "t' = target\<lparr>health := 0, isDead := True\<rparr>"
    define s' where "s' = setUnit s tid t'"
    show ?thesis
    proof (cases "map_of (players s) (playerId target)")
      case None
      then have "unitSound s (tid, t')"
        using lt by (simp add: unitSound_def t'_def rosterOf_def)
      then have "unitsSound s'"
        unfolding s'_def using assms(1) by (rule unitsSound_setUnit[rotated])
      then show ?thesis using True None
        by (simp add: applyDamage_def Let_def h_def s'_def t'_def)
    next
      case (Some player)
      define p' where "p' = player\<lparr>playerUnits := filter (\<lambda>u. u \<noteq> tid) (playerUnits player)\<rparr>"
      define s'' where "s'' = setPlayer s' (playerId target) p'"
      have "rosterOf s (playerId target) = playerUnits player"
        using Some by (simp add: rosterOf_def)
      then have sub: "set (rosterOf s'' q) \<subseteq> set (rosterOf s q)" for q
        by (auto simp: s''_def s'_def p'_def rosterOf_setPlayer)
      have cnt: "uuidCount s \<le> uuidCount s''" by (simp add: s''_def s'_def)
      have new: "unitSound s'' (tid, t')"
        using lt by (simp add: unitSound_def t'_def s''_def s'_def p'_def rosterOf_setPlayer)
      have old: "list_all (unitSound s'') (units s)"
        using assms(1) unitSound_mono[OF _ cnt sub] by (auto simp: unitsSound_def list_all_iff)
      have "units s'' = AList.update tid t' (units s)" by (simp add: s''_def s'_def)
      then have "unitsSound s''" using new old by (simp add: unitsSound_def list_all_update)
      then show ?thesis using True Some
        by (simp add: applyDamage_def Let_def h_def s''_def s'_def t'_def p'_def)
    qed
  qed
qed

lemma sound_handleCombat:
  assumes "unitsSound s"
  shows "unitsSound (handleCombat dt s uid)"
proof (cases "map_of (units s) uid")
  case None
  then show ?thesis using assms by (simp add: handleCombat_def)
next
  case (Some unit)
  have "unitsSound (setUnit s uid u)"
    if "health u = health unit" "isDead u = isDead unit" "playerId u = playerId unit" for u
    using assms Some that by (rule unitsSound_modify)
  then show ?thesis using assms Some
    by (simp add: handleCombat_def Let_def sound_applyDamage split: option.splits)
qed

lemma sound_updateUnit: "unitsSound s \<Longrightarrow> unitsSound (updateUnit dt uid s)"
  by (simp add: updateUnit_def sound_handleCombat sound_handleMovement sound_checkForAutoTarget
      split: option.splits)

lemma sound_fold_updateUnit: "unitsSound s \<Longrightarrow> unitsSound (fold (updateUnit dt) ids s)"
  by (induction ids arbitrary: s) (simp_all add: sound_updateUnit)

lemma collectFor_roster [simp]: "rosterOf (collectFor rid pid s) = rosterOf s"
  by (auto simp: collectFor_def rosterOf_def fun_eq_iff AList.update_conv' split: option.splits)

lemma collectFor_uuidCount [simp]: "uuidCount (collectFor rid pid s) = uuidCount s"
  by (simp add: collectFor_def split: option.splits)

lemma fold_collectFor_roster [simp]:
  "rosterOf (fold (collectFor rid) pids s) = rosterOf s \<and>
   uuidCount (fold (collectFor rid) pids s) = uuidCount s"
  by (induction pids arbitrary: s) simp_all

lemma collectResource_roster [simp]:
  "rosterOf (collectResource rid s) = rosterOf s \<and>
   uuidCount (collectResource rid s) = uuidCount s"
  by (simp add: collectResource_def split: option.splits)

lemma collectResources_roster [simp]:
  "rosterOf (collectResources s) = rosterOf s \<and> uuidCount (collectResources s) = uuidCount s"
proof -
  have "rosterOf (fold collectResource rids s) = rosterOf s \<and>
        uuidCount (fold collectResource rids s) = uuidCount s" for rids
    by (induction rids arbitrary: s) simp_all
  then show ?thesis by (simp add: collectResources_def)
qed

lemma sound_update:
  assumes "unitsSound s"
  shows "unitsSound (update s now)"
proof -
  define s1 where "s1 = s\<lparr>lastUpdateTime := now, gameTime := fl (gameTime s + deltaOf s now)\<rparr>"
  define s2 where "s2 = updateUnits (deltaOf s now) s1"
  define s3 where "s3 = updateResources (deltaOf s now) s2"
  have "unitsSound s1"
    using assms by (rule unitsSound_frame) (simp_all add: s1_def rosterOf_def)
  then have "unitsSound s2" by (simp add: s2_def updateUnits_def sound_fold_updateUnit)
  then have "unitsSound s3"
    by (rule unitsSound_frame) (simp_all add: s3_def rosterOf_def updateResources_def)
  then have "unitsSound (collectResources s3)"
    by (rule unitsSound_frame) simp_all
  then show ?thesis by (simp add: update_def Let_def s1_def s2_def s3_def)
qed

lemma UNIT_STATS_fresh [simp]:
  "\<not> isDead (UNIT_STATS ty pos pid)" "0 < health (UNIT_STATS ty pos pid)"
  by (cases ty; simp)+

lemma sound_createUnit:
  assumes "unitsSound s"
  shows "unitsSound (snd (createUnit s key ty arg))"
proof -
  define n where "n = uuidCount s"
  define s' where "s' = snd (createUnit s key ty arg)"
  define a where "a = fst (passed s arg)"
  consider "s' = s"
    | pid p where "map_of (players s) pid = Some p"
        "s' = (snd (passed s arg))
          \<lparr>players := AList.update pid
              (p\<lparr>money := fl (money p - unitCost ty (length (playerUnits p))),
                 playerUnits := playerUnits p @ [n]\<rparr>) (players s),
           units := AList.update n (UNIT_STATS ty a pid) (units s),
           uuidCount := Suc n\<rparr>"
    using createUnit_cases[of s key ty arg] by (auto simp: s'_def n_def a_def)
  then show ?thesis
  proof cases
    case 1
    then show ?thesis using assms by (simp add: s'_def)
  next
    case 2
    have u: "units s' = AList.update n (UNIT_STATS ty a pid) (units s)"
      and c: "uuidCount s' = Suc n"
      and r: "rosterOf s' q = (if q = pid then playerUnits p @ [n] else rosterOf s q)" for q
      by (simp_all add: 2(2) rosterOf_def AList.update_conv')
    have new: "unitSound s' (n, UNIT_STATS ty a pid)"
      by (simp add: unitSound_def c)
    have "unitSound s' e" if "e \<in> set (units s)" for e
    proof -
      have "unitSound s e" using assms that by (simp add: unitsSound_def list_all_iff)
      moreover have "rosterOf s pid = playerUnits p" using 2(1) by (simp add: rosterOf_def)
      ultimately show ?thesis
        by (cases e) (auto simp: unitSound_def c r n_def)
    qed
    then have "list_all (unitSound s') (units s)" by (simp add: list_all_iff)
    then show ?thesis using new u by (simp add: unitsSound_def s'_def[symmetric] list_all_update)
  qed
qed

lemma sound_addPlayer:
  assumes "unitsSound s"
  shows "unitsSound (snd (addPlayer s nm fac r1 r2))"
proof -
  have "unitsSound ((snd (alloc s b))\<lparr>players := AList.update (uuidCount s) p (players s),
                      uuidCount := Suc (uuidCount s)\<rparr>)"
    if "playerUnits p = []" for p b
    using assms
  proof (rule unitsSound_frame)
    show "set (rosterOf ((snd (alloc s b))\<lparr>players := AList.update (uuidCount s) p (players s),
                      uuidCount := Suc (uuidCount s)\<rparr>) q) \<subseteq> set (rosterOf s q)" for q
      using that by (simp add: rosterOf_def AList.update_conv')
  qed simp_all
  then show ?thesis
    by (simp add: addPlayer_def Let_def sound_createUnit split_def)
qed

lemma step_sound:
  assumes "step s s'" and "unitsSound s"
  shows "unitsSound s'"
  using assms
  by (cases rule: step.cases)
     (simp_all add: sound_addPlayer sound_createUnit sound_moveUnit sound_attackUnit sound_update)

lemma reachable_sound: "reachable s \<Longrightarrow> unitsSound s"
proof (induction rule: reachable.induct)
  case (r_new w h now rnd)
  show ?case by (simp add: unitsSound_def)
next
  case (r_step s s')
  then show ?case using step_sound by blast
qed

section \<open>Units persist\<close>

lemma persists_refl: "persists s s"
  by (simp add: persists_def)

lemma persists_trans: "persists s s' \<Longrightarrow> persists s' s'' \<Longrightarrow> persists s s''"
  unfolding persists_def by metis

lemma persists_same: "units s' = units s \<Longrightarrow> persists s s'"
  by (simp add: persists_def)

lemma persists_setUnit:
  "(\<And>u0. map_of (units s) uid = Some u0 \<Longrightarrow> isDead u0 \<Longrightarrow> isDead u) \<Longrightarrow>
   persists s (setUnit s uid u)"
  by (auto simp: persists_def AList.update_conv')

lemma persists_advance [simp]: "persists s (advance dt s u dest)"
  by (simp add: persists_def)

lemma persists_moveUnit: "persists s (snd (moveUnit s uid pos))"
  using moveUnit_cases[of s uid pos]
  by (auto simp: persists_def AList.update_conv')

lemma persists_attackUnit: "persists s (snd (attackUnit s aid tid))"
  by (auto simp: attackUnit_def persists_refl intro: persists_setUnit split: option.splits)

lemma persists_checkForAutoTarget: "persists s (checkForAutoTarget s uid)"
  by (auto simp: checkForAutoTarget_def persists_refl persists_attackUnit split: option.splits)

lemma persists_handleMovement: "persists s (handleMovement dt s uid)"
  by (auto simp: handleMovement_def persists_refl intro!: persists_setUnit
      split: option.splits list.splits)

lemma persists_applyDamage:
  assumes "map_of (units s) tid = Some target"
  shows "persists s (applyDamage s unit tid target)"
proof -
  have "persists s (setUnit s tid u)" if "isDead target \<longrightarrow> isDead u" for u
    using assms that by (intro persists_setUnit) simp
  then show ?thesis
    by (simp add: applyDamage_def Let_def persists_def split: option.splits)
qed

lemma persists_handleCombat: "persists s (handleCombat dt s uid)"
  by (auto simp: handleCombat_def Let_def persists_refl persists_applyDamage
      intro!: persists_setUnit split: option.splits)

lemma persists_updateUnit: "persists s (updateUnit dt uid s)"
  using persists_trans[OF persists_checkForAutoTarget
      persists_trans[OF persists_handleMovement persists_handleCombat]]
  by (auto simp: updateUnit_def persists_refl split: option.splits)

lemma persists_fold_updateUnit: "persists s (fold (updateUnit dt) ids s)"
proof (induction ids arbitrary: s)
  case Nil
  show ?case by (simp add: persists_refl)
next
  case (Cons a ids)
  show ?case using persists_trans[OF persists_updateUnit Cons.IH] by simp
qed

lemma persists_update: "persists s (update s now)"
proof -
  have "persists s (s\<lparr>lastUpdateTime := t, gameTime := g\<rparr>)" for t g
    by (simp add: persists_def)
  then have "persists s (updateUnits dt (s\<lparr>lastUpdateTime := t, gameTime := g\<rparr>))" for dt t g
    unfolding updateUnits_def using persists_fold_updateUnit persists_trans by blast
  then show ?thesis by (simp add: update_def Let_def persists_def)
qed

lemma sound_fresh:
  "unitsSound s \<Longrightarrow> map_of (units s) uid = Some u \<Longrightarrow> uid < uuidCount s"
  using unitsSound_lookup[of s uid u] by (simp add: unitSound_def)

lemma persists_createUnit:
  assumes "unitsSound s"
  shows "persists s (snd (createUnit s key ty arg))"
proof -
  have "uid \<noteq> uuidCount s" if "map_of (units s) uid = Some u" for uid u
    using sound_fresh[OF assms that] by simp
  then show ?thesis using createUnit_cases[of s key ty arg]
    by (auto simp: persists_def AList.update_conv')
qed

lemma persists_addPlayer:
  assumes "unitsSound s"
  shows "persists s (snd (addPlayer s nm fac r1 r2))"
proof -
  have "uid < uuidCount s" if "map_of (units s) uid = Some u" for uid u
    using sound_fresh[OF assms that] .
  then show ?thesis
    by (fastforce simp: addPlayer_result persists_def AList.update_conv')
qed

lemma step_persists:
  assumes "step s s'" and "unitsSound s"
  shows "persists s s'"
  using assms
  by (cases rule: step.cases)
     (simp_all add: persists_addPlayer persists_createUnit persists_moveUnit
        persists_attackUnit persists_update)

lemma steps_reachable_persists:
  assumes "step\<^sup>*\<^sup>* s s'" and "reachable s"
  shows "reachable s' \<and> persists s s'"
  using assms
proof (induction rule: rtranclp_induct)
  case base
  then show ?case by (simp add: persists_refl)
next
  case (step y z)
  then have "reachable y" "persists s y" by simp_all
  moreover have "persists y z" using step.hyps(2) \<open>reachable y\<close>
    by (intro step_persists reachable_sound)
  ultimately show ?case using step.hyps(2) persists_trans r_step by blast
qed

section \<open>References lead to objects\<close>





lemma grounded_setPlayer [simp]: "grounded (setPlayer s pid p) = grounded s"
  by (simp add: grounded_def)

lemma grounded_advance [simp]: "grounded (advance dt s u dest) = grounded s"
  by (simp add: grounded_def)




lemma objectsOf_UNIT_STATS [simp]: "objectsOf (UNIT_STATS ty a pid) = [a]"
  by (cases ty) (simp_all add: objectsOf_def)














section \<open>Evaluating the example engines\<close>

lemma sqrt_1600: "sqrt 1600 = 40"
  by (rule real_sqrt_unique) simp_all

lemma engine0_arena: "engine0 = arena [] [] (nodes False 30) 0 0 15 []"
  by (simp add: engine0_def newGameEngine_def spawnResources_def spawnResource_def
      mapResourceCount_def resourceSpot_def RESOURCE_amount_def RESOURCE_respawnTime_def
      generateSpot_def alloc_def arena_def nodes_def upt_15)

lemma engine2_arena:
  "engine2 = arena [(15, playerA 485 [16, 17]), (18, playerB 485 [19, 20])]
     [(16, engaged SOLDIER 16 15 None 100), (17, engaged SOLDIER 17 15 None 100),
      (19, engaged SOLDIER 19 18 None 100), (20, engaged SOLDIER 20 18 None 100)]
     (nodes False 30) 0 0 21 camp"
  by (simp add: engine2_eq engine0_arena arena_def playerA_def playerB_def engaged_def camp_def)

lemmas tick_defs =
  updateUnits_def updateUnit_def checkForAutoTarget_def scanEnemy_def
  attackUnit_def canUnitAttackTarget_def handleMovement_def handleCombat_def distanceFrom_def
  jsqrt_def attackDue_def applyDamage_def setUnit_def setPlayer_def Let_def sqrt_1600
  updateResources_def respawn_def collectResources_def collectResource_def collectFor_def
  nearResource_def collectionRange_def RESOURCE_amount_def RESOURCE_respawnTime_def
  arena_def nodes_def playerA_def playerB_def engaged_def camp_def posAt_def

lemma update_arena:
  "update (arena ps us rs gt lut n hp) now =
     collectResources (updateResources (fl (fl (now - lut) / 1000))
       (updateUnits (fl (fl (now - lut) / 1000))
          (arena ps us rs (fl (gt + fl (fl (now - lut) / 1000))) now n hp)))"
  by (simp add: update_def deltaOf_def arena_def Let_def)

lemma engine3_arena:
  "engine3 = arena [(15, playerA 2735 [16, 17]), (18, playerB 2735 [19, 20])]
     [(16, engaged SOLDIER 16 15 (Some 19) 100), (17, engaged SOLDIER 17 15 (Some 20) 100),
      (19, engaged SOLDIER 19 18 (Some 16) 100), (20, engaged SOLDIER 20 18 (Some 17) 100)]
     (nodes True 30) 0 0 21 camp"
  unfolding engine3_def engine2_arena update_arena
  by (simp add: tick_defs)

lemma fl_dyadic:
  assumes "\<bar>n\<bar> < 2 ^ 53" and "j \<le> 1000"
  shows "fl (of_int n / 2 ^ j) = of_int n / 2 ^ j"
proof (cases "n = 0")
  case True
  then show ?thesis by simp
next
  case False
  have "1 \<le> \<bar>n\<bar>" using False by simp
  then have 1: "1 \<le> \<bar>real_of_int n\<bar>" by (metis of_int_1_le_iff of_int_abs)
  have "real_of_int \<bar>n\<bar> < of_int (2 ^ 53)" using assms(1) by (simp only: of_int_less_iff)
  then have 2: "\<bar>real_of_int n\<bar> < 2 ^ 53" by simp
  obtain k where k: "k \<le> 52" "2 ^ 52 \<le> \<bar>real_of_int n\<bar> * 2 ^ k" "\<bar>real_of_int n\<bar> * 2 ^ k < 2 ^ 53"
    using ex_scale[OF 1 2] by blast
  have e: "\<bar>real_of_int n / 2 ^ j\<bar> * 2 ^ (k + j) = \<bar>real_of_int n\<bar> * 2 ^ k"
    by (simp add: power_add abs_divide)
  have z: "\<bar>real_of_int n / 2 ^ j\<bar> * 2 ^ (k + j) = of_int (\<bar>n\<bar> * 2 ^ k)"
    unfolding e by simp
  have "k + j \<le> 1074" using k(1) assms(2) by simp
  then show ?thesis using k(2,3) z
    by (intro fl_exact[where k = "k + j" and z = "\<bar>n\<bar> * 2 ^ k"]) (simp_all only: e)
qed

declare fl_one [simp]

lemma fl_half [simp]: "numeral w < (2 ^ 53 :: int) \<Longrightarrow> fl (numeral w / 2) = numeral w / 2"
  using fl_dyadic[of "numeral w" 1] by simp

lemma fl_one_half [simp]: "fl (1 / 2) = 1 / 2"
  using fl_dyadic[of 1 1] by simp

lemma engine4_arena:
  "engine4 = arena [(15, playerA 2195 [16, 17, 21]), (18, playerB 2735 [19, 20])]
     [(16, engaged SOLDIER 16 15 (Some 19) 100), (17, engaged SOLDIER 17 15 (Some 20) 100),
      (19, engaged SOLDIER 19 18 (Some 16) 100), (20, engaged SOLDIER 20 18 (Some 17) 100),
      (21, engaged TANK 21 15 None 300)]
     (nodes True 30) 0 0 22 (camp @ [\<lparr>px = 100, py = 100\<rparr>])"
proof -
  have p: "map_of (players engine3) 15 = Some (playerA 2735 [16, 17])"
    by (simp add: engine3_arena arena_def)
  have c: "\<not> money (playerA 2735 [16, 17]) < unitCost TANK (length (playerUnits (playerA 2735 [16, 17])))"
    by (simp add: playerA_def unitCost_TANK_Suc)
  show ?thesis
    unfolding engine4_def createUnit_success[OF p c]
    by (simp add: engine3_arena arena_def playerA_def engaged_def unitCost_TANK_Suc camp_def)
qed

lemma engine5_arena:
  "engine5 = arena [(15, playerA 2195 [16, 17, 21]), (18, playerB 2735 [19, 20])]
     [(16, engaged SOLDIER 16 15 (Some 19) (185 / 2)), (17, engaged SOLDIER 17 15 (Some 20) (185 / 2)),
      (19, engaged SOLDIER 19 18 (Some 16) 65), (20, engaged SOLDIER 20 18 (Some 17) (185 / 2)),
      (21, engaged TANK 21 15 (Some 19) 300)]
     (nodes True 29) 1 1000 22 (camp @ [\<lparr>px = 100, py = 100\<rparr>])"
  unfolding engine5_def engine4_arena update_arena
  by (simp add: tick_defs)

lemma engine6_arena:
  "engine6 = arena [(15, playerA 2195 [16, 17, 21]), (18, playerB 2735 [19, 20])]
     [(16, engaged SOLDIER 16 15 (Some 19) 85), (17, engaged SOLDIER 17 15 (Some 20) 85),
      (19, engaged SOLDIER 19 18 (Some 16) 30), (20, engaged SOLDIER 20 18 (Some 17) 85),
      (21, engaged TANK 21 15 (Some 19) 300)]
     (nodes True 28) 2 2000 22 (camp @ [\<lparr>px = 100, py = 100\<rparr>])"
  unfolding engine6_def engine5_arena update_arena
  by (simp add: tick_defs)

lemma engine7_arena:
  "engine7 = arena [(15, playerA 2195 [16, 17, 21]), (18, playerB 2735 [20])]
     [(16, engaged SOLDIER 16 15 (Some 19) (155 / 2)), (17, engaged SOLDIER 17 15 (Some 20) (155 / 2)),
      (19, (engaged SOLDIER 19 18 (Some 16) 0)\<lparr>isDead := True\<rparr>),
      (20, engaged SOLDIER 20 18 (Some 17) (155 / 2)),
      (21, engaged TANK 21 15 (Some 19) 300)]
     (nodes True 27) 3 3000 22 (camp @ [\<lparr>px = 100, py = 100\<rparr>])"
  unfolding engine7_def engine6_arena update_arena
  by (simp add: tick_defs)

lemma unitCost_SOLDIER_3: "unitCost SOLDIER (Suc (Suc (Suc 0))) = 195"
proof -
  have a: "fl (3 * (3602879701896397 / 36028797018963968)) = 1351079888211149 / 4503599627370496"
    using fl_up[of "3 * (3602879701896397 / 36028797018963968)" 54] by (simp add: rne_def)
  have b: "fl (1 + 1351079888211149 / 4503599627370496) = 5854679515581645 / 4503599627370496"
    using fl_up[of "1 + 1351079888211149 / 4503599627370496" 52] by (simp add: rne_def)
  have c: "fl (150 * (5854679515581645 / 4503599627370496)) = 195"
    using fl_up[of "150 * (5854679515581645 / 4503599627370496)" 45] by (simp add: rne_def)
  have "unitCost SOLDIER 3 = of_int \<lfloor>195::real\<rfloor>"
    by (simp only: unitCost_def Let_def js_0_1_val BASE_UNIT_COSTS.simps of_nat_numeral a b c)
  then show ?thesis by (simp add: numeral_3_eq_3)
qed

lemma unitCost_HELICOPTER_2: "unitCost HELICOPTER (Suc (Suc 0)) = 840"
proof -
  have a: "fl (2 * (3602879701896397 / 36028797018963968)) = 3602879701896397 / 18014398509481984"
    using fl_up[of "2 * (3602879701896397 / 36028797018963968)" 55] by (simp add: rne_def)
  have b: "fl (1 + 3602879701896397 / 18014398509481984) = 5404319552844595 / 4503599627370496"
    using fl_up[of "1 + 3602879701896397 / 18014398509481984" 52] by (simp add: rne_def)
  have c: "fl (700 * (5404319552844595 / 4503599627370496)) = 840"
    using fl_up[of "700 * (5404319552844595 / 4503599627370496)" 43] by (simp add: rne_def)
  have "unitCost HELICOPTER 2 = of_int \<lfloor>840::real\<rfloor>"
    by (simp only: unitCost_def Let_def js_0_1_val BASE_UNIT_COSTS.simps of_nat_numeral a b c)
  then show ?thesis by (simp add: numeral_2_eq_2)
qed

lemma unitCost_HELICOPTER_Suc4: "unitCost HELICOPTER (Suc (Suc (Suc (Suc 0)))) = 979"
  using unitCost_HELICOPTER_4 by (simp add: eval_nat_numeral)

lemma engine4s_arena:
  "engine4s = arena [(15, playerA 2000 [16, 17, 21, 22]), (18, playerB 2735 [19, 20])]
     [(16, engaged SOLDIER 16 15 (Some 19) 100), (17, engaged SOLDIER 17 15 (Some 20) 100),
      (19, engaged SOLDIER 19 18 (Some 16) 100), (20, engaged SOLDIER 20 18 (Some 17) 100),
      (21, engaged TANK 21 15 None 300), (22, engaged SOLDIER 22 15 None 100)]
     (nodes True 30) 0 0 23 (camp @ [\<lparr>px = 100, py = 100\<rparr>, \<lparr>px = 140, py = 100\<rparr>])"
proof -
  have p: "map_of (players engine4) 15 = Some (playerA 2195 [16, 17, 21])"
    by (simp add: engine4_arena arena_def)
  have c: "\<not> money (playerA 2195 [16, 17, 21])
             < unitCost SOLDIER (length (playerUnits (playerA 2195 [16, 17, 21])))"
    by (simp add: playerA_def unitCost_SOLDIER_3)
  show ?thesis
    unfolding engine4s_def createUnit_success[OF p c]
    by (simp add: engine4_arena arena_def playerA_def engaged_def unitCost_SOLDIER_3 camp_def)
qed

lemma engine4h_arena:
  "engine4h = arena [(15, playerA 2195 [16, 17, 21]), (18, playerB 1895 [19, 20, 22])]
     [(16, engaged SOLDIER 16 15 (Some 19) 100), (17, engaged SOLDIER 17 15 (Some 20) 100),
      (19, engaged SOLDIER 19 18 (Some 16) 100), (20, engaged SOLDIER 20 18 (Some 17) 100),
      (21, engaged TANK 21 15 None 300), (22, engaged HELICOPTER 22 18 None 200)]
     (nodes True 30) 0 0 23 (camp @ [\<lparr>px = 100, py = 100\<rparr>, \<lparr>px = 100, py = 100\<rparr>])"
proof -
  have p: "map_of (players engine4) 18 = Some (playerB 2735 [19, 20])"
    by (simp add: engine4_arena arena_def)
  have c: "\<not> money (playerB 2735 [19, 20])
             < unitCost HELICOPTER (length (playerUnits (playerB 2735 [19, 20])))"
    by (simp add: playerB_def unitCost_HELICOPTER_2)
  show ?thesis
    unfolding engine4h_def createUnit_success[OF p c]
    by (simp add: engine4_arena arena_def playerB_def engaged_def unitCost_HELICOPTER_2 camp_def)
qed

lemma engine2m_arena:
  "engine2m = arena [(15, playerA 485 [16, 17]), (18, playerB 485 [19, 20])]
     [(16, (engaged SOLDIER 16 15 (Some 19) 100)
             \<lparr>path := Some [21], isMoving := True\<rparr>),
      (17, engaged SOLDIER 17 15 None 100),
      (19, engaged SOLDIER 19 18 None 100), (20, engaged SOLDIER 20 18 None 100)]
     (nodes False 30) 0 0 21 (camp @ [\<lparr>px = 200, py = 200\<rparr>])"
  by (simp add: engine2m_def engine2_arena moveUnit_def attackUnit_def canUnitAttackTarget_def
      setUnit_def arena_def engaged_def passed_def alloc_def camp_def)

lemma volley1_arena:
  "volley1 = arena [(15, playerA 2735 [16, 17]), (18, playerB 2735 [19, 20])]
     [(16, engaged SOLDIER 16 15 (Some 19) 100), (17, engaged SOLDIER 17 15 (Some 20) 100),
      (19, engaged SOLDIER 19 18 (Some 16) 100), (20, engaged SOLDIER 20 18 (Some 17) 100)]
     (nodes True 30) (1 / 2) 500 21 camp"
  unfolding volley1_def engine2_arena update_arena
  by (simp add: tick_defs)

lemma volley2_arena:
  "volley2 = arena [(15, playerA 2735 [16, 17]), (18, playerB 2735 [19, 20])]
     [(16, engaged SOLDIER 16 15 (Some 19) (185 / 2)), (17, engaged SOLDIER 17 15 (Some 20) (185 / 2)),
      (19, engaged SOLDIER 19 18 (Some 16) (185 / 2)), (20, engaged SOLDIER 20 18 (Some 17) (185 / 2))]
     (nodes True (59 / 2)) 1 1000 21 camp"
  unfolding volley2_def volley1_arena update_arena
  by (simp add: tick_defs)

lemma volley3_arena:
  "volley3 = arena [(15, playerA 2735 [16, 17]), (18, playerB 2735 [19, 20])]
     [(16, engaged SOLDIER 16 15 (Some 19) (185 / 2)), (17, engaged SOLDIER 17 15 (Some 20) (185 / 2)),
      (19, engaged SOLDIER 19 18 (Some 16) (185 / 2)), (20, engaged SOLDIER 20 18 (Some 17) (185 / 2))]
     (nodes True 29) (3 / 2) 1500 21 camp"
  unfolding volley3_def volley2_arena update_arena
  by (simp add: tick_defs)

lemma volley4_arena:
  "volley4 = arena [(15, playerA 2735 [16, 17]), (18, playerB 2735 [19, 20])]
     [(16, engaged SOLDIER 16 15 (Some 19) 85), (17, engaged SOLDIER 17 15 (Some 20) 85),
      (19, engaged SOLDIER 19 18 (Some 16) 85), (20, engaged SOLDIER 20 18 (Some 17) 85)]
     (nodes True (57 / 2)) 2 2000 21 camp"
  unfolding volley4_def volley3_arena update_arena
  by (simp add: tick_defs)

lemma fl_3_10: "fl (3 / 10) = 5404319552844595 / 18014398509481984"
  using fl_up[of "3 / 10" 54] by (simp add: rne_def)

lemma fl_2_3: "fl (41433116571808563 / 18014398509481984) = 2589569785738035 / 1125899906842624"
  using fl_up[of "41433116571808563 / 18014398509481984" 51] by (simp add: rne_def)

lemma fl_2_3_back: "fl (36028797018963965 / 18014398509481984) = 9007199254740991 / 4503599627370496"
  using fl_up[of "36028797018963965 / 18014398509481984" 52] by (simp add: rne_def)

lemma fl_respawn: "fl (508006037967391949 / 18014398509481984) = 7937594343240499 / 281474976710656"
  using fl_up[of "508006037967391949 / 18014398509481984" 48] by (simp add: rne_def)

lemma volley5_arena:
  "volley5 = arena [(15, playerA 2735 [16, 17]), (18, playerB 2735 [19, 20])]
     [(16, engaged SOLDIER 16 15 (Some 19) (155 / 2)), (17, engaged SOLDIER 17 15 (Some 20) (155 / 2)),
      (19, engaged SOLDIER 19 18 (Some 16) (155 / 2)), (20, engaged SOLDIER 20 18 (Some 17) (155 / 2))]
     (nodes True (7937594343240499 / 281474976710656))
     (2589569785738035 / 1125899906842624) 2300 21 camp"
  unfolding volley5_def volley4_arena update_arena
  by (simp add: tick_defs fl_3_10 fl_2_3 fl_2_3_back fl_respawn)

lemma siege4_arena:
  "siege4 = arena [(15, playerA 2735 [16, 17]), (18, playerB 2195 [19, 20, 21])]
     [(16, engaged SOLDIER 16 15 (Some 19) 100), (17, engaged SOLDIER 17 15 (Some 20) 100),
      (19, engaged SOLDIER 19 18 (Some 16) 100), (20, engaged SOLDIER 20 18 (Some 17) 100),
      (21, engaged TANK 21 18 None 300)]
     (nodes True 30) 0 0 22 (camp @ [\<lparr>px = 100, py = 100\<rparr>])"
proof -
  have p: "map_of (players engine3) 18 = Some (playerB 2735 [19, 20])"
    by (simp add: engine3_arena arena_def)
  have c: "\<not> money (playerB 2735 [19, 20])
             < unitCost TANK (length (playerUnits (playerB 2735 [19, 20])))"
    by (simp add: playerB_def unitCost_TANK_Suc)
  show ?thesis
    unfolding siege4_def createUnit_success[OF p c]
    by (simp add: engine3_arena arena_def playerB_def engaged_def unitCost_TANK_Suc camp_def)
qed

lemma siege5_arena:
  "siege5 = arena [(15, playerA 2735 [16, 17]), (18, playerB 2195 [19, 20, 21])]
     [(16, engaged SOLDIER 16 15 (Some 19) 65), (17, engaged SOLDIER 17 15 (Some 20) (185 / 2)),
      (19, engaged SOLDIER 19 18 (Some 16) (185 / 2)), (20, engaged SOLDIER 20 18 (Some 17) (185 / 2)),
      (21, engaged TANK 21 18 (Some 16) 300)]
     (nodes True 29) 1 1000 22 (camp @ [\<lparr>px = 100, py = 100\<rparr>])"
  unfolding siege5_def siege4_arena update_arena
  by (simp add: tick_defs)

lemma siege6_arena:
  "siege6 = arena [(15, playerA 2735 [16, 17]), (18, playerB 2195 [19, 20, 21])]
     [(16, engaged SOLDIER 16 15 (Some 19) 30), (17, engaged SOLDIER 17 15 (Some 20) 85),
      (19, engaged SOLDIER 19 18 (Some 16) 85), (20, engaged SOLDIER 20 18 (Some 17) 85),
      (21, engaged TANK 21 18 (Some 16) 300)]
     (nodes True 28) 2 2000 22 (camp @ [\<lparr>px = 100, py = 100\<rparr>])"
  unfolding siege6_def siege5_arena update_arena
  by (simp add: tick_defs)

lemma siege6m_arena:
  "siege6m = arena [(15, playerA 2735 [16, 17]), (18, playerB 2195 [19, 20, 21])]
     [(16, (engaged SOLDIER 16 15 None 30)\<lparr>path := Some [22], isMoving := True\<rparr>),
      (17, engaged SOLDIER 17 15 (Some 20) 85),
      (19, engaged SOLDIER 19 18 (Some 16) 85), (20, engaged SOLDIER 20 18 (Some 17) 85),
      (21, engaged TANK 21 18 (Some 16) 300)]
     (nodes True 28) 2 2000 22 (camp @ [\<lparr>px = 100, py = 100\<rparr>, \<lparr>px = 100, py = 100\<rparr>])"
  by (simp add: siege6m_def siege6_arena moveUnit_def setUnit_def arena_def engaged_def
      passed_def alloc_def camp_def)

lemma siege7_arena:
  "siege7 = arena [(15, playerA 2735 [17]), (18, playerB 2195 [19, 20, 21])]
     [(16, (engaged SOLDIER 16 15 None 0)\<lparr>path := Some [], isDead := True\<rparr>),
      (17, engaged SOLDIER 17 15 (Some 20) (155 / 2)),
      (19, engaged SOLDIER 19 18 (Some 16) 85), (20, engaged SOLDIER 20 18 (Some 17) (155 / 2)),
      (21, engaged TANK 21 18 (Some 16) 300)]
     (nodes True 27) 3 3000 22 (camp @ [\<lparr>px = 100, py = 100\<rparr>, \<lparr>px = 100, py = 100\<rparr>])"
  unfolding siege7_def siege6m_arena update_arena
  by (simp add: tick_defs)







section \<open>A treasury and an army\<close>

declare harvest.simps [simp del]

lemma harvest_numeral:
  "harvest (numeral n) = update (harvest (pred_numeral n)) (30000 * real (pred_numeral n))"
  by (simp add: numeral_eq_Suc harvest.simps)

lemma harvest_0:
  "harvest 0 = arena [(15, playerA 485 [16, 17])]
     [(16, engaged SOLDIER 16 15 None 100), (17, engaged SOLDIER 17 15 None 100)]
     (nodes False 30) 0 0 18 outpost"
  by (simp add: harvest.simps engine1_eq engine0_arena arena_def playerA_def engaged_def
      outpost_def)

lemma harvest_1:
  "harvest 1 = arena [(15, playerA 2735 [16, 17])]
     [(16, engaged SOLDIER 16 15 None 100), (17, engaged SOLDIER 17 15 None 100)]
     (nodes True 30) 0 0 18 outpost"
proof -
  have "harvest 1 = update (harvest 0) 0"
    by (simp add: harvest.simps)
  then show ?thesis
    unfolding harvest_0 update_arena by (simp add: tick_defs outpost_def)
qed

lemma harvest_2:
  "harvest 2 = arena [(15, playerA 4985 [16, 17])]
     [(16, engaged SOLDIER 16 15 None 100), (17, engaged SOLDIER 17 15 None 100)]
     (nodes True 30) 30 30000 18 outpost"
proof -
  have "harvest 2 = update (harvest 1) 30000"
    by (subst harvest_numeral) simp
  then show ?thesis
    unfolding harvest_1 update_arena by (simp add: tick_defs outpost_def)
qed

lemma harvest_3:
  "harvest 3 = arena [(15, playerA 7235 [16, 17])]
     [(16, engaged SOLDIER 16 15 None 100), (17, engaged SOLDIER 17 15 None 100)]
     (nodes True 30) 60 60000 18 outpost"
proof -
  have "harvest 3 = update (harvest 2) 60000"
    by (subst harvest_numeral) simp
  then show ?thesis
    unfolding harvest_2 update_arena by (simp add: tick_defs outpost_def)
qed

lemma harvest_4:
  "harvest 4 = arena [(15, playerA 9485 [16, 17])]
     [(16, engaged SOLDIER 16 15 None 100), (17, engaged SOLDIER 17 15 None 100)]
     (nodes True 30) 90 90000 18 outpost"
proof -
  have "harvest 4 = update (harvest 3) 90000"
    by (subst harvest_numeral) simp
  then show ?thesis
    unfolding harvest_3 update_arena by (simp add: tick_defs outpost_def)
qed

lemma harvest_5:
  "harvest 5 = arena [(15, playerA 11735 [16, 17])]
     [(16, engaged SOLDIER 16 15 None 100), (17, engaged SOLDIER 17 15 None 100)]
     (nodes True 30) 120 120000 18 outpost"
proof -
  have "harvest 5 = update (harvest 4) 120000"
    by (subst harvest_numeral) simp
  then show ?thesis
    unfolding harvest_4 update_arena by (simp add: tick_defs outpost_def)
qed

lemma harvest_6:
  "harvest 6 = arena [(15, playerA 13985 [16, 17])]
     [(16, engaged SOLDIER 16 15 None 100), (17, engaged SOLDIER 17 15 None 100)]
     (nodes True 30) 150 150000 18 outpost"
proof -
  have "harvest 6 = update (harvest 5) 150000"
    by (subst harvest_numeral) simp
  then show ?thesis
    unfolding harvest_5 update_arena by (simp add: tick_defs outpost_def)
qed

lemma harvest_7:
  "harvest 7 = arena [(15, playerA 16235 [16, 17])]
     [(16, engaged SOLDIER 16 15 None 100), (17, engaged SOLDIER 17 15 None 100)]
     (nodes True 30) 180 180000 18 outpost"
proof -
  have "harvest 7 = update (harvest 6) 180000"
    by (subst harvest_numeral) simp
  then show ?thesis
    unfolding harvest_6 update_arena by (simp add: tick_defs outpost_def)
qed

lemma harvest_8:
  "harvest 8 = arena [(15, playerA 18485 [16, 17])]
     [(16, engaged SOLDIER 16 15 None 100), (17, engaged SOLDIER 17 15 None 100)]
     (nodes True 30) 210 210000 18 outpost"
proof -
  have "harvest 8 = update (harvest 7) 210000"
    by (subst harvest_numeral) simp
  then show ?thesis
    unfolding harvest_7 update_arena by (simp add: tick_defs outpost_def)
qed

lemma harvest_9:
  "harvest 9 = arena [(15, playerA 20735 [16, 17])]
     [(16, engaged SOLDIER 16 15 None 100), (17, engaged SOLDIER 17 15 None 100)]
     (nodes True 30) 240 240000 18 outpost"
proof -
  have "harvest 9 = update (harvest 8) 240000"
    by (subst harvest_numeral) simp
  then show ?thesis
    unfolding harvest_8 update_arena by (simp add: tick_defs outpost_def)
qed

lemma harvest_10:
  "harvest 10 = arena [(15, playerA 22985 [16, 17])]
     [(16, engaged SOLDIER 16 15 None 100), (17, engaged SOLDIER 17 15 None 100)]
     (nodes True 30) 270 270000 18 outpost"
proof -
  have "harvest 10 = update (harvest 9) 270000"
    by (subst harvest_numeral) simp
  then show ?thesis
    unfolding harvest_9 update_arena by (simp add: tick_defs outpost_def)
qed

lemma harvest_11:
  "harvest 11 = arena [(15, playerA 25235 [16, 17])]
     [(16, engaged SOLDIER 16 15 None 100), (17, engaged SOLDIER 17 15 None 100)]
     (nodes True 30) 300 300000 18 outpost"
proof -
  have "harvest 11 = update (harvest 10) 300000"
    by (subst harvest_numeral) simp
  then show ?thesis
    unfolding harvest_10 update_arena by (simp add: tick_defs outpost_def)
qed

lemma reachable_harvest: "reachable (harvest j)"
proof (induction j)
  case 0
  have "reachable engine0" unfolding engine0_def by (rule r_new)
  then show ?case unfolding harvest.simps engine1_def using s_addPlayer by (rule r_step)
next
  case (Suc j)
  then show ?case unfolding harvest.simps using s_update by (rule r_step)
qed

lemma reachable_recruits: "reachable s \<Longrightarrow> reachable (fold recruit tys s)"
proof (induction tys arbitrary: s)
  case Nil
  then show ?case by simp
next
  case (Cons ty tys)
  have "step s (recruit ty s)"
    unfolding recruit_def by (rule s_createUnit) (simp add: known_def)
  then have "reachable (recruit ty s)" using Cons.prems r_step by blast
  then show ?case using Cons.IH by simp
qed

lemma recruits_purse:
  assumes "map_of (players s) 15 = Some p"
    and "enlist tys (money p) (length (playerUnits p)) = Some (m, n)"
  shows "\<exists>p'. map_of (players (fold recruit tys s)) 15 = Some p' \<and> money p' = m \<and>
           length (playerUnits p') = n \<and>
           uuidCount (fold recruit tys s) = uuidCount s + length tys"
  using assms
proof (induction tys arbitrary: s p)
  case Nil
  then show ?case by simp
next
  case (Cons ty tys)
  have c: "\<not> money p < unitCost ty (length (playerUnits p))"
    using Cons.prems(2) by (auto split: if_splits)
  define p1 where "p1 = p\<lparr>money := fl (money p - unitCost ty (length (playerUnits p))),
                           playerUnits := playerUnits p @ [uuidCount s]\<rparr>"
  have l: "map_of (players (recruit ty s)) 15 = Some p1"
    and u: "uuidCount (recruit ty s) = Suc (uuidCount s)"
    unfolding recruit_def createUnit_success[OF Cons.prems(1) c]
    by (simp_all add: p1_def AList.update_conv')
  have e: "enlist tys (money p1) (length (playerUnits p1)) = Some (m, n)"
    using Cons.prems(2) c by (simp add: p1_def)
  show ?case using Cons.IH[OF l e] u by simp
qed

lemma cost_SOLDIER_2: "unitCost SOLDIER 2 = 180"
proof -
  have a: "fl (2 * (3602879701896397 / 36028797018963968)) = 3602879701896397 / 18014398509481984"
    using fl_up[of "2 * (3602879701896397 / 36028797018963968)" 55] by (simp add: rne_def)
  have b: "fl (1 + 3602879701896397 / 18014398509481984) = 5404319552844595 / 4503599627370496"
    using fl_up[of "1 + 3602879701896397 / 18014398509481984" 52] by (simp add: rne_def)
  have c: "fl (150 * (5404319552844595 / 4503599627370496)) = 180"
    using fl_up[of "150 * (5404319552844595 / 4503599627370496)" 45] by (simp add: rne_def)
  have "unitCost SOLDIER 2 = of_int \<lfloor>180 :: real\<rfloor>"
    by (simp only: unitCost_def Let_def js_0_1_val BASE_UNIT_COSTS.simps of_nat_numeral a b c)
  then show ?thesis by simp
qed

lemma cost_SOLDIER_3: "unitCost SOLDIER 3 = 195"
proof -
  have a: "fl (3 * (3602879701896397 / 36028797018963968)) = 1351079888211149 / 4503599627370496"
    using fl_up[of "3 * (3602879701896397 / 36028797018963968)" 54] by (simp add: rne_def)
  have b: "fl (1 + 1351079888211149 / 4503599627370496) = 5854679515581645 / 4503599627370496"
    using fl_up[of "1 + 1351079888211149 / 4503599627370496" 52] by (simp add: rne_def)
  have c: "fl (150 * (5854679515581645 / 4503599627370496)) = 195"
    using fl_up[of "150 * (5854679515581645 / 4503599627370496)" 45] by (simp add: rne_def)
  have "unitCost SOLDIER 3 = of_int \<lfloor>195 :: real\<rfloor>"
    by (simp only: unitCost_def Let_def js_0_1_val BASE_UNIT_COSTS.simps of_nat_numeral a b c)
  then show ?thesis by simp
qed

lemma cost_HELICOPTER_4: "unitCost HELICOPTER 4 = 979"
proof -
  have a: "fl (4 * (3602879701896397 / 36028797018963968)) = 3602879701896397 / 9007199254740992"
    using fl_up[of "4 * (3602879701896397 / 36028797018963968)" 54] by (simp add: rne_def)
  have b: "fl (1 + 3602879701896397 / 9007199254740992) = 3152519739159347 / 2251799813685248"
    using fl_up[of "1 + 3602879701896397 / 9007199254740992" 52] by (simp add: rne_def)
  have c: "fl (700 * (3152519739159347 / 2251799813685248)) = 8620171161763839 / 8796093022208"
    using fl_up[of "700 * (3152519739159347 / 2251799813685248)" 43] by (simp add: rne_def)
  have "unitCost HELICOPTER 4 = of_int \<lfloor>8620171161763839 / 8796093022208 :: real\<rfloor>"
    by (simp only: unitCost_def Let_def js_0_1_val BASE_UNIT_COSTS.simps of_nat_numeral a b c)
  then show ?thesis by simp
qed

lemma cost_SOLDIER_5: "unitCost SOLDIER 5 = 225"
proof -
  have a: "fl (5 * (3602879701896397 / 36028797018963968)) = 1 / 2"
    using fl_up[of "5 * (3602879701896397 / 36028797018963968)" 53] by (simp add: rne_def)
  have b: "fl (1 + 1 / 2) = 3 / 2"
    using fl_up[of "1 + 1 / 2" 52] by (simp add: rne_def)
  have c: "fl (150 * (3 / 2)) = 225"
    using fl_up[of "150 * (3 / 2)" 45] by (simp add: rne_def)
  have "unitCost SOLDIER 5 = of_int \<lfloor>225 :: real\<rfloor>"
    by (simp only: unitCost_def Let_def js_0_1_val BASE_UNIT_COSTS.simps of_nat_numeral a b c)
  then show ?thesis by simp
qed

lemma cost_SOLDIER_6: "unitCost SOLDIER 6 = 240"
proof -
  have a: "fl (6 * (3602879701896397 / 36028797018963968)) = 1351079888211149 / 2251799813685248"
    using fl_up[of "6 * (3602879701896397 / 36028797018963968)" 53] by (simp add: rne_def)
  have b: "fl (1 + 1351079888211149 / 2251799813685248) = 3602879701896397 / 2251799813685248"
    using fl_up[of "1 + 1351079888211149 / 2251799813685248" 52] by (simp add: rne_def)
  have c: "fl (150 * (3602879701896397 / 2251799813685248)) = 240"
    using fl_up[of "150 * (3602879701896397 / 2251799813685248)" 45] by (simp add: rne_def)
  have "unitCost SOLDIER 6 = of_int \<lfloor>240 :: real\<rfloor>"
    by (simp only: unitCost_def Let_def js_0_1_val BASE_UNIT_COSTS.simps of_nat_numeral a b c)
  then show ?thesis by simp
qed

lemma cost_HELICOPTER_7: "unitCost HELICOPTER 7 = 1190"
proof -
  have a: "fl (7 * (3602879701896397 / 36028797018963968)) = 6305039478318695 / 9007199254740992"
    using fl_up[of "7 * (3602879701896397 / 36028797018963968)" 53] by (simp add: rne_def)
  have b: "fl (1 + 6305039478318695 / 9007199254740992) = 1914029841632461 / 1125899906842624"
    using fl_up[of "1 + 6305039478318695 / 9007199254740992" 52] by (simp add: rne_def)
  have c: "fl (700 * (1914029841632461 / 1125899906842624)) = 5233675348213761 / 4398046511104"
    using fl_up[of "700 * (1914029841632461 / 1125899906842624)" 42] by (simp add: rne_def)
  have "unitCost HELICOPTER 7 = of_int \<lfloor>5233675348213761 / 4398046511104 :: real\<rfloor>"
    by (simp only: unitCost_def Let_def js_0_1_val BASE_UNIT_COSTS.simps of_nat_numeral a b c)
  then show ?thesis by simp
qed

lemma cost_SOLDIER_8: "unitCost SOLDIER 8 = 270"
proof -
  have a: "fl (8 * (3602879701896397 / 36028797018963968)) = 3602879701896397 / 4503599627370496"
    using fl_up[of "8 * (3602879701896397 / 36028797018963968)" 53] by (simp add: rne_def)
  have b: "fl (1 + 3602879701896397 / 4503599627370496) = 8106479329266893 / 4503599627370496"
    using fl_up[of "1 + 3602879701896397 / 4503599627370496" 52] by (simp add: rne_def)
  have c: "fl (150 * (8106479329266893 / 4503599627370496)) = 270"
    using fl_up[of "150 * (8106479329266893 / 4503599627370496)" 44] by (simp add: rne_def)
  have "unitCost SOLDIER 8 = of_int \<lfloor>270 :: real\<rfloor>"
    by (simp only: unitCost_def Let_def js_0_1_val BASE_UNIT_COSTS.simps of_nat_numeral a b c)
  then show ?thesis by simp
qed

lemma cost_SOLDIER_9: "unitCost SOLDIER 9 = 285"
proof -
  have a: "fl (9 * (3602879701896397 / 36028797018963968)) = 8106479329266893 / 9007199254740992"
    using fl_up[of "9 * (3602879701896397 / 36028797018963968)" 53] by (simp add: rne_def)
  have b: "fl (1 + 8106479329266893 / 9007199254740992) = 4278419646001971 / 2251799813685248"
    using fl_up[of "1 + 8106479329266893 / 9007199254740992" 52] by (simp add: rne_def)
  have c: "fl (150 * (4278419646001971 / 2251799813685248)) = 285"
    using fl_up[of "150 * (4278419646001971 / 2251799813685248)" 44] by (simp add: rne_def)
  have "unitCost SOLDIER 9 = of_int \<lfloor>285 :: real\<rfloor>"
    by (simp only: unitCost_def Let_def js_0_1_val BASE_UNIT_COSTS.simps of_nat_numeral a b c)
  then show ?thesis by simp
qed

lemma cost_SOLDIER_10: "unitCost SOLDIER 10 = 300"
proof -
  have a: "fl (10 * (3602879701896397 / 36028797018963968)) = 1"
    using fl_up[of "10 * (3602879701896397 / 36028797018963968)" 52] by (simp add: rne_def)
  have b: "fl (1 + 1) = 2"
    using fl_up[of "1 + 1" 51] by (simp add: rne_def)
  have c: "fl (150 * 2) = 300"
    using fl_up[of "150 * 2" 44] by (simp add: rne_def)
  have "unitCost SOLDIER 10 = of_int \<lfloor>300 :: real\<rfloor>"
    by (simp only: unitCost_def Let_def js_0_1_val BASE_UNIT_COSTS.simps of_nat_numeral a b c)
  then show ?thesis by simp
qed

lemma cost_SOLDIER_11: "unitCost SOLDIER 11 = 315"
proof -
  have a: "fl (11 * (3602879701896397 / 36028797018963968)) = 2476979795053773 / 2251799813685248"
    using fl_up[of "11 * (3602879701896397 / 36028797018963968)" 52] by (simp add: rne_def)
  have b: "fl (1 + 2476979795053773 / 2251799813685248) = 4728779608739021 / 2251799813685248"
    using fl_up[of "1 + 2476979795053773 / 2251799813685248" 51] by (simp add: rne_def)
  have c: "fl (150 * (4728779608739021 / 2251799813685248)) = 315"
    using fl_up[of "150 * (4728779608739021 / 2251799813685248)" 44] by (simp add: rne_def)
  have "unitCost SOLDIER 11 = of_int \<lfloor>315 :: real\<rfloor>"
    by (simp only: unitCost_def Let_def js_0_1_val BASE_UNIT_COSTS.simps of_nat_numeral a b c)
  then show ?thesis by simp
qed

lemma cost_SOLDIER_12: "unitCost SOLDIER 12 = 330"
proof -
  have a: "fl (12 * (3602879701896397 / 36028797018963968)) = 1351079888211149 / 1125899906842624"
    using fl_up[of "12 * (3602879701896397 / 36028797018963968)" 52] by (simp add: rne_def)
  have b: "fl (1 + 1351079888211149 / 1125899906842624) = 2476979795053773 / 1125899906842624"
    using fl_up[of "1 + 1351079888211149 / 1125899906842624" 51] by (simp add: rne_def)
  have c: "fl (150 * (2476979795053773 / 1125899906842624)) = 330"
    using fl_up[of "150 * (2476979795053773 / 1125899906842624)" 44] by (simp add: rne_def)
  have "unitCost SOLDIER 12 = of_int \<lfloor>330 :: real\<rfloor>"
    by (simp only: unitCost_def Let_def js_0_1_val BASE_UNIT_COSTS.simps of_nat_numeral a b c)
  then show ?thesis by simp
qed

lemma cost_HELICOPTER_13: "unitCost HELICOPTER 13 = 1609"
proof -
  have a: "fl (13 * (3602879701896397 / 36028797018963968)) = 5854679515581645 / 4503599627370496"
    using fl_up[of "13 * (3602879701896397 / 36028797018963968)" 52] by (simp add: rne_def)
  have b: "fl (1 + 5854679515581645 / 4503599627370496) = 2589569785738035 / 1125899906842624"
    using fl_up[of "1 + 5854679515581645 / 4503599627370496" 51] by (simp add: rne_def)
  have c: "fl (700 * (2589569785738035 / 1125899906842624)) = 7080854882877439 / 4398046511104"
    using fl_up[of "700 * (2589569785738035 / 1125899906842624)" 42] by (simp add: rne_def)
  have "unitCost HELICOPTER 13 = of_int \<lfloor>7080854882877439 / 4398046511104 :: real\<rfloor>"
    by (simp only: unitCost_def Let_def js_0_1_val BASE_UNIT_COSTS.simps of_nat_numeral a b c)
  then show ?thesis by simp
qed

lemma cost_TANK_14: "unitCost TANK 14 = 1080"
proof -
  have a: "fl (14 * (3602879701896397 / 36028797018963968)) = 6305039478318695 / 4503599627370496"
    using fl_up[of "14 * (3602879701896397 / 36028797018963968)" 52] by (simp add: rne_def)
  have b: "fl (1 + 6305039478318695 / 4503599627370496) = 1351079888211149 / 562949953421312"
    using fl_up[of "1 + 6305039478318695 / 4503599627370496" 51] by (simp add: rne_def)
  have c: "fl (450 * (1351079888211149 / 562949953421312)) = 4749890231992321 / 4398046511104"
    using fl_up[of "450 * (1351079888211149 / 562949953421312)" 42] by (simp add: rne_def)
  have "unitCost TANK 14 = of_int \<lfloor>4749890231992321 / 4398046511104 :: real\<rfloor>"
    by (simp only: unitCost_def Let_def js_0_1_val BASE_UNIT_COSTS.simps of_nat_numeral a b c)
  then show ?thesis by simp
qed

lemma cost_SOLDIER_15: "unitCost SOLDIER 15 = 375"
proof -
  have a: "fl (15 * (3602879701896397 / 36028797018963968)) = 3 / 2"
    using fl_up[of "15 * (3602879701896397 / 36028797018963968)" 52] by (simp add: rne_def)
  have b: "fl (1 + 3 / 2) = 5 / 2"
    using fl_up[of "1 + 3 / 2" 51] by (simp add: rne_def)
  have c: "fl (150 * (5 / 2)) = 375"
    using fl_up[of "150 * (5 / 2)" 44] by (simp add: rne_def)
  have "unitCost SOLDIER 15 = of_int \<lfloor>375 :: real\<rfloor>"
    by (simp only: unitCost_def Let_def js_0_1_val BASE_UNIT_COSTS.simps of_nat_numeral a b c)
  then show ?thesis by simp
qed

lemma cost_SOLDIER_16: "unitCost SOLDIER 16 = 390"
proof -
  have a: "fl (16 * (3602879701896397 / 36028797018963968)) = 3602879701896397 / 2251799813685248"
    using fl_up[of "16 * (3602879701896397 / 36028797018963968)" 52] by (simp add: rne_def)
  have b: "fl (1 + 3602879701896397 / 2251799813685248) = 5854679515581645 / 2251799813685248"
    using fl_up[of "1 + 3602879701896397 / 2251799813685248" 51] by (simp add: rne_def)
  have c: "fl (150 * (5854679515581645 / 2251799813685248)) = 390"
    using fl_up[of "150 * (5854679515581645 / 2251799813685248)" 44] by (simp add: rne_def)
  have "unitCost SOLDIER 16 = of_int \<lfloor>390 :: real\<rfloor>"
    by (simp only: unitCost_def Let_def js_0_1_val BASE_UNIT_COSTS.simps of_nat_numeral a b c)
  then show ?thesis by simp
qed

lemma cost_SOLDIER_17: "unitCost SOLDIER 17 = 405"
proof -
  have a: "fl (17 * (3602879701896397 / 36028797018963968)) = 1914029841632461 / 1125899906842624"
    using fl_up[of "17 * (3602879701896397 / 36028797018963968)" 52] by (simp add: rne_def)
  have b: "fl (1 + 1914029841632461 / 1125899906842624) = 3039929748475085 / 1125899906842624"
    using fl_up[of "1 + 1914029841632461 / 1125899906842624" 51] by (simp add: rne_def)
  have c: "fl (150 * (3039929748475085 / 1125899906842624)) = 405"
    using fl_up[of "150 * (3039929748475085 / 1125899906842624)" 44] by (simp add: rne_def)
  have "unitCost SOLDIER 17 = of_int \<lfloor>405 :: real\<rfloor>"
    by (simp only: unitCost_def Let_def js_0_1_val BASE_UNIT_COSTS.simps of_nat_numeral a b c)
  then show ?thesis by simp
qed

lemma cost_HELICOPTER_18: "unitCost HELICOPTER 18 = 1959"
proof -
  have a: "fl (18 * (3602879701896397 / 36028797018963968)) = 8106479329266893 / 4503599627370496"
    using fl_up[of "18 * (3602879701896397 / 36028797018963968)" 52] by (simp add: rne_def)
  have b: "fl (1 + 8106479329266893 / 4503599627370496) = 3152519739159347 / 1125899906842624"
    using fl_up[of "1 + 8106479329266893 / 4503599627370496" 51] by (simp add: rne_def)
  have c: "fl (700 * (3152519739159347 / 1125899906842624)) = 8620171161763839 / 4398046511104"
    using fl_up[of "700 * (3152519739159347 / 1125899906842624)" 42] by (simp add: rne_def)
  have "unitCost HELICOPTER 18 = of_int \<lfloor>8620171161763839 / 4398046511104 :: real\<rfloor>"
    by (simp only: unitCost_def Let_def js_0_1_val BASE_UNIT_COSTS.simps of_nat_numeral a b c)
  then show ?thesis by simp
qed

lemma cost_SOLDIER_19: "unitCost SOLDIER 19 = 435"
proof -
  have a: "fl (19 * (3602879701896397 / 36028797018963968)) = 8556839292003943 / 4503599627370496"
    using fl_up[of "19 * (3602879701896397 / 36028797018963968)" 52] by (simp add: rne_def)
  have b: "fl (1 + 8556839292003943 / 4503599627370496) = 1632554864921805 / 562949953421312"
    using fl_up[of "1 + 8556839292003943 / 4503599627370496" 51] by (simp add: rne_def)
  have c: "fl (150 * (1632554864921805 / 562949953421312)) = 7652600929320961 / 17592186044416"
    using fl_up[of "150 * (1632554864921805 / 562949953421312)" 44] by (simp add: rne_def)
  have "unitCost SOLDIER 19 = of_int \<lfloor>7652600929320961 / 17592186044416 :: real\<rfloor>"
    by (simp only: unitCost_def Let_def js_0_1_val BASE_UNIT_COSTS.simps of_nat_numeral a b c)
  then show ?thesis by simp
qed

lemma cost_SOLDIER_20: "unitCost SOLDIER 20 = 450"
proof -
  have a: "fl (20 * (3602879701896397 / 36028797018963968)) = 2"
    using fl_up[of "20 * (3602879701896397 / 36028797018963968)" 51] by (simp add: rne_def)
  have b: "fl (1 + 2) = 3"
    using fl_up[of "1 + 2" 51] by (simp add: rne_def)
  have c: "fl (150 * 3) = 450"
    using fl_up[of "150 * 3" 44] by (simp add: rne_def)
  have "unitCost SOLDIER 20 = of_int \<lfloor>450 :: real\<rfloor>"
    by (simp only: unitCost_def Let_def js_0_1_val BASE_UNIT_COSTS.simps of_nat_numeral a b c)
  then show ?thesis by simp
qed

lemma cost_SOLDIER_21: "unitCost SOLDIER 21 = 465"
proof -
  have a: "fl (21 * (3602879701896397 / 36028797018963968)) = 4728779608739021 / 2251799813685248"
    using fl_up[of "21 * (3602879701896397 / 36028797018963968)" 51] by (simp add: rne_def)
  have b: "fl (1 + 4728779608739021 / 2251799813685248) = 6980579422424269 / 2251799813685248"
    using fl_up[of "1 + 4728779608739021 / 2251799813685248" 51] by (simp add: rne_def)
  have c: "fl (150 * (6980579422424269 / 2251799813685248)) = 465"
    using fl_up[of "150 * (6980579422424269 / 2251799813685248)" 44] by (simp add: rne_def)
  have "unitCost SOLDIER 21 = of_int \<lfloor>465 :: real\<rfloor>"
    by (simp only: unitCost_def Let_def js_0_1_val BASE_UNIT_COSTS.simps of_nat_numeral a b c)
  then show ?thesis by simp
qed

lemma cost_SOLDIER_22: "unitCost SOLDIER 22 = 480"
proof -
  have a: "fl (22 * (3602879701896397 / 36028797018963968)) = 2476979795053773 / 1125899906842624"
    using fl_up[of "22 * (3602879701896397 / 36028797018963968)" 51] by (simp add: rne_def)
  have b: "fl (1 + 2476979795053773 / 1125899906842624) = 3602879701896397 / 1125899906842624"
    using fl_up[of "1 + 2476979795053773 / 1125899906842624" 51] by (simp add: rne_def)
  have c: "fl (150 * (3602879701896397 / 1125899906842624)) = 480"
    using fl_up[of "150 * (3602879701896397 / 1125899906842624)" 44] by (simp add: rne_def)
  have "unitCost SOLDIER 22 = of_int \<lfloor>480 :: real\<rfloor>"
    by (simp only: unitCost_def Let_def js_0_1_val BASE_UNIT_COSTS.simps of_nat_numeral a b c)
  then show ?thesis by simp
qed

lemma cost_SOLDIER_23: "unitCost SOLDIER 23 = 495"
proof -
  have a: "fl (23 * (3602879701896397 / 36028797018963968)) = 5179139571476071 / 2251799813685248"
    using fl_up[of "23 * (3602879701896397 / 36028797018963968)" 51] by (simp add: rne_def)
  have b: "fl (1 + 5179139571476071 / 2251799813685248) = 7430939385161319 / 2251799813685248"
    using fl_up[of "1 + 5179139571476071 / 2251799813685248" 51] by (simp add: rne_def)
  have c: "fl (150 * (7430939385161319 / 2251799813685248)) = 8708132091985921 / 17592186044416"
    using fl_up[of "150 * (7430939385161319 / 2251799813685248)" 44] by (simp add: rne_def)
  have "unitCost SOLDIER 23 = of_int \<lfloor>8708132091985921 / 17592186044416 :: real\<rfloor>"
    by (simp only: unitCost_def Let_def js_0_1_val BASE_UNIT_COSTS.simps of_nat_numeral a b c)
  then show ?thesis by simp
qed

lemma cost_SOLDIER_24: "unitCost SOLDIER 24 = 510"
proof -
  have a: "fl (24 * (3602879701896397 / 36028797018963968)) = 1351079888211149 / 562949953421312"
    using fl_up[of "24 * (3602879701896397 / 36028797018963968)" 51] by (simp add: rne_def)
  have b: "fl (1 + 1351079888211149 / 562949953421312) = 1914029841632461 / 562949953421312"
    using fl_up[of "1 + 1351079888211149 / 562949953421312" 51] by (simp add: rne_def)
  have c: "fl (150 * (1914029841632461 / 562949953421312)) = 8972014882652161 / 17592186044416"
    using fl_up[of "150 * (1914029841632461 / 562949953421312)" 44] by (simp add: rne_def)
  have "unitCost SOLDIER 24 = of_int \<lfloor>8972014882652161 / 17592186044416 :: real\<rfloor>"
    by (simp only: unitCost_def Let_def js_0_1_val BASE_UNIT_COSTS.simps of_nat_numeral a b c)
  then show ?thesis by simp
qed

lemma cost_SOLDIER_25: "unitCost SOLDIER 25 = 525"
proof -
  have a: "fl (25 * (3602879701896397 / 36028797018963968)) = 5 / 2"
    using fl_up[of "25 * (3602879701896397 / 36028797018963968)" 51] by (simp add: rne_def)
  have b: "fl (1 + 5 / 2) = 7 / 2"
    using fl_up[of "1 + 5 / 2" 51] by (simp add: rne_def)
  have c: "fl (150 * (7 / 2)) = 525"
    using fl_up[of "150 * (7 / 2)" 43] by (simp add: rne_def)
  have "unitCost SOLDIER 25 = of_int \<lfloor>525 :: real\<rfloor>"
    by (simp only: unitCost_def Let_def js_0_1_val BASE_UNIT_COSTS.simps of_nat_numeral a b c)
  then show ?thesis by simp
qed

lemma cost_SOLDIER_26: "unitCost SOLDIER 26 = 540"
proof -
  have a: "fl (26 * (3602879701896397 / 36028797018963968)) = 5854679515581645 / 2251799813685248"
    using fl_up[of "26 * (3602879701896397 / 36028797018963968)" 51] by (simp add: rne_def)
  have b: "fl (1 + 5854679515581645 / 2251799813685248) = 8106479329266893 / 2251799813685248"
    using fl_up[of "1 + 5854679515581645 / 2251799813685248" 51] by (simp add: rne_def)
  have c: "fl (150 * (8106479329266893 / 2251799813685248)) = 540"
    using fl_up[of "150 * (8106479329266893 / 2251799813685248)" 43] by (simp add: rne_def)
  have "unitCost SOLDIER 26 = of_int \<lfloor>540 :: real\<rfloor>"
    by (simp only: unitCost_def Let_def js_0_1_val BASE_UNIT_COSTS.simps of_nat_numeral a b c)
  then show ?thesis by simp
qed

lemma cost_SOLDIER_27: "unitCost SOLDIER 27 = 555"
proof -
  have a: "fl (27 * (3602879701896397 / 36028797018963968)) = 3039929748475085 / 1125899906842624"
    using fl_up[of "27 * (3602879701896397 / 36028797018963968)" 51] by (simp add: rne_def)
  have b: "fl (1 + 3039929748475085 / 1125899906842624) = 4165829655317709 / 1125899906842624"
    using fl_up[of "1 + 3039929748475085 / 1125899906842624" 51] by (simp add: rne_def)
  have c: "fl (150 * (4165829655317709 / 1125899906842624)) = 555"
    using fl_up[of "150 * (4165829655317709 / 1125899906842624)" 43] by (simp add: rne_def)
  have "unitCost SOLDIER 27 = of_int \<lfloor>555 :: real\<rfloor>"
    by (simp only: unitCost_def Let_def js_0_1_val BASE_UNIT_COSTS.simps of_nat_numeral a b c)
  then show ?thesis by simp
qed

lemma cost_SOLDIER_28: "unitCost SOLDIER 28 = 570"
proof -
  have a: "fl (28 * (3602879701896397 / 36028797018963968)) = 6305039478318695 / 2251799813685248"
    using fl_up[of "28 * (3602879701896397 / 36028797018963968)" 51] by (simp add: rne_def)
  have b: "fl (1 + 6305039478318695 / 2251799813685248) = 8556839292003943 / 2251799813685248"
    using fl_up[of "1 + 6305039478318695 / 2251799813685248" 51] by (simp add: rne_def)
  have c: "fl (150 * (8556839292003943 / 2251799813685248)) = 570"
    using fl_up[of "150 * (8556839292003943 / 2251799813685248)" 43] by (simp add: rne_def)
  have "unitCost SOLDIER 28 = of_int \<lfloor>570 :: real\<rfloor>"
    by (simp only: unitCost_def Let_def js_0_1_val BASE_UNIT_COSTS.simps of_nat_numeral a b c)
  then show ?thesis by simp
qed

lemma cost_SOLDIER_29: "unitCost SOLDIER 29 = 585"
proof -
  have a: "fl (29 * (3602879701896397 / 36028797018963968)) = 1632554864921805 / 562949953421312"
    using fl_up[of "29 * (3602879701896397 / 36028797018963968)" 51] by (simp add: rne_def)
  have b: "fl (1 + 1632554864921805 / 562949953421312) = 2195504818343117 / 562949953421312"
    using fl_up[of "1 + 1632554864921805 / 562949953421312" 51] by (simp add: rne_def)
  have c: "fl (150 * (2195504818343117 / 562949953421312)) = 585"
    using fl_up[of "150 * (2195504818343117 / 562949953421312)" 43] by (simp add: rne_def)
  have "unitCost SOLDIER 29 = of_int \<lfloor>585 :: real\<rfloor>"
    by (simp only: unitCost_def Let_def js_0_1_val BASE_UNIT_COSTS.simps of_nat_numeral a b c)
  then show ?thesis by simp
qed

lemma cost_SOLDIER_30: "unitCost SOLDIER 30 = 600"
proof -
  have a: "fl (30 * (3602879701896397 / 36028797018963968)) = 3"
    using fl_up[of "30 * (3602879701896397 / 36028797018963968)" 51] by (simp add: rne_def)
  have b: "fl (1 + 3) = 4"
    using fl_up[of "1 + 3" 50] by (simp add: rne_def)
  have c: "fl (150 * 4) = 600"
    using fl_up[of "150 * 4" 43] by (simp add: rne_def)
  have "unitCost SOLDIER 30 = of_int \<lfloor>600 :: real\<rfloor>"
    by (simp only: unitCost_def Let_def js_0_1_val BASE_UNIT_COSTS.simps of_nat_numeral a b c)
  then show ?thesis by simp
qed

lemma cost_HELICOPTER_31: "unitCost HELICOPTER 31 = 2869"
proof -
  have a: "fl (31 * (3602879701896397 / 36028797018963968)) = 6980579422424269 / 2251799813685248"
    using fl_up[of "31 * (3602879701896397 / 36028797018963968)" 51] by (simp add: rne_def)
  have b: "fl (1 + 6980579422424269 / 2251799813685248) = 2308094809027379 / 562949953421312"
    using fl_up[of "1 + 6980579422424269 / 2251799813685248" 50] by (simp add: rne_def)
  have c: "fl (700 * (2308094809027379 / 562949953421312)) = 6311196743434239 / 2199023255552"
    using fl_up[of "700 * (2308094809027379 / 562949953421312)" 41] by (simp add: rne_def)
  have "unitCost HELICOPTER 31 = of_int \<lfloor>6311196743434239 / 2199023255552 :: real\<rfloor>"
    by (simp only: unitCost_def Let_def js_0_1_val BASE_UNIT_COSTS.simps of_nat_numeral a b c)
  then show ?thesis by simp
qed

lemma cost_SOLDIER_32: "unitCost SOLDIER 32 = 630"
proof -
  have a: "fl (32 * (3602879701896397 / 36028797018963968)) = 3602879701896397 / 1125899906842624"
    using fl_up[of "32 * (3602879701896397 / 36028797018963968)" 51] by (simp add: rne_def)
  have b: "fl (1 + 3602879701896397 / 1125899906842624) = 4728779608739021 / 1125899906842624"
    using fl_up[of "1 + 3602879701896397 / 1125899906842624" 50] by (simp add: rne_def)
  have c: "fl (150 * (4728779608739021 / 1125899906842624)) = 630"
    using fl_up[of "150 * (4728779608739021 / 1125899906842624)" 43] by (simp add: rne_def)
  have "unitCost SOLDIER 32 = of_int \<lfloor>630 :: real\<rfloor>"
    by (simp only: unitCost_def Let_def js_0_1_val BASE_UNIT_COSTS.simps of_nat_numeral a b c)
  then show ?thesis by simp
qed

lemma cost_SOLDIER_33: "unitCost SOLDIER 33 = 645"
proof -
  have a: "fl (33 * (3602879701896397 / 36028797018963968)) = 7430939385161319 / 2251799813685248"
    using fl_up[of "33 * (3602879701896397 / 36028797018963968)" 51] by (simp add: rne_def)
  have b: "fl (1 + 7430939385161319 / 2251799813685248) = 1210342399855821 / 281474976710656"
    using fl_up[of "1 + 7430939385161319 / 2251799813685248" 50] by (simp add: rne_def)
  have c: "fl (150 * (1210342399855821 / 281474976710656)) = 5673479999324161 / 8796093022208"
    using fl_up[of "150 * (1210342399855821 / 281474976710656)" 43] by (simp add: rne_def)
  have "unitCost SOLDIER 33 = of_int \<lfloor>5673479999324161 / 8796093022208 :: real\<rfloor>"
    by (simp only: unitCost_def Let_def js_0_1_val BASE_UNIT_COSTS.simps of_nat_numeral a b c)
  then show ?thesis by simp
qed

lemma cost_SOLDIER_34: "unitCost SOLDIER 34 = 660"
proof -
  have a: "fl (34 * (3602879701896397 / 36028797018963968)) = 1914029841632461 / 562949953421312"
    using fl_up[of "34 * (3602879701896397 / 36028797018963968)" 51] by (simp add: rne_def)
  have b: "fl (1 + 1914029841632461 / 562949953421312) = 2476979795053773 / 562949953421312"
    using fl_up[of "1 + 1914029841632461 / 562949953421312" 50] by (simp add: rne_def)
  have c: "fl (150 * (2476979795053773 / 562949953421312)) = 660"
    using fl_up[of "150 * (2476979795053773 / 562949953421312)" 43] by (simp add: rne_def)
  have "unitCost SOLDIER 34 = of_int \<lfloor>660 :: real\<rfloor>"
    by (simp only: unitCost_def Let_def js_0_1_val BASE_UNIT_COSTS.simps of_nat_numeral a b c)
  then show ?thesis by simp
qed

lemma cost_SOLDIER_35: "unitCost SOLDIER 35 = 675"
proof -
  have a: "fl (35 * (3602879701896397 / 36028797018963968)) = 7 / 2"
    using fl_up[of "35 * (3602879701896397 / 36028797018963968)" 51] by (simp add: rne_def)
  have b: "fl (1 + 7 / 2) = 9 / 2"
    using fl_up[of "1 + 7 / 2" 50] by (simp add: rne_def)
  have c: "fl (150 * (9 / 2)) = 675"
    using fl_up[of "150 * (9 / 2)" 43] by (simp add: rne_def)
  have "unitCost SOLDIER 35 = of_int \<lfloor>675 :: real\<rfloor>"
    by (simp only: unitCost_def Let_def js_0_1_val BASE_UNIT_COSTS.simps of_nat_numeral a b c)
  then show ?thesis by simp
qed

lemma cost_HELICOPTER_36: "unitCost HELICOPTER 36 = 3219"
proof -
  have a: "fl (36 * (3602879701896397 / 36028797018963968)) = 8106479329266893 / 2251799813685248"
    using fl_up[of "36 * (3602879701896397 / 36028797018963968)" 51] by (simp add: rne_def)
  have b: "fl (1 + 8106479329266893 / 2251799813685248) = 2589569785738035 / 562949953421312"
    using fl_up[of "1 + 8106479329266893 / 2251799813685248" 50] by (simp add: rne_def)
  have c: "fl (700 * (2589569785738035 / 562949953421312)) = 7080854882877439 / 2199023255552"
    using fl_up[of "700 * (2589569785738035 / 562949953421312)" 41] by (simp add: rne_def)
  have "unitCost HELICOPTER 36 = of_int \<lfloor>7080854882877439 / 2199023255552 :: real\<rfloor>"
    by (simp only: unitCost_def Let_def js_0_1_val BASE_UNIT_COSTS.simps of_nat_numeral a b c)
  then show ?thesis by simp
qed

lemma enlist_drafts: "enlist drafts 25235 2 = Some (3219, 36)"
  by (simp add: drafts_def cost_SOLDIER_2 cost_SOLDIER_3 cost_HELICOPTER_4 cost_SOLDIER_5 cost_SOLDIER_6 cost_HELICOPTER_7 cost_SOLDIER_8 cost_SOLDIER_9 cost_SOLDIER_10 cost_SOLDIER_11 cost_SOLDIER_12 cost_HELICOPTER_13 cost_TANK_14 cost_SOLDIER_15 cost_SOLDIER_16 cost_SOLDIER_17 cost_HELICOPTER_18 cost_SOLDIER_19 cost_SOLDIER_20 cost_SOLDIER_21 cost_SOLDIER_22 cost_SOLDIER_23 cost_SOLDIER_24 cost_SOLDIER_25 cost_SOLDIER_26 cost_SOLDIER_27 cost_SOLDIER_28 cost_SOLDIER_29 cost_SOLDIER_30 cost_HELICOPTER_31 cost_SOLDIER_32 cost_SOLDIER_33 cost_SOLDIER_34 cost_SOLDIER_35)

lemma army_purse:
  "\<exists>p. map_of (players army) 15 = Some p \<and> money p = 3219 \<and> length (playerUnits p) = 36 \<and>
       uuidCount army = 52"
proof -
  have l: "map_of (players (harvest 11)) 15 = Some (playerA 25235 [16, 17])"
    by (simp add: harvest_11 arena_def)
  have "money (playerA 25235 [16, 17]) = 25235"
    and "length (playerUnits (playerA 25235 [16, 17])) = 2"
    by (simp_all add: playerA_def)
  then have e: "enlist drafts (money (playerA 25235 [16, 17]))
             (length (playerUnits (playerA 25235 [16, 17]))) = Some (3219, 36)"
    by (simp only: enlist_drafts)
  have "length drafts = 34" by (simp add: drafts_def)
  moreover have "uuidCount (harvest 11) = 18" by (simp add: harvest_11 arena_def)
  ultimately show ?thesis using recruits_purse[OF l e] by (simp add: army_def)
qed

lemma reachable_army: "reachable army"
  unfolding army_def using reachable_harvest by (rule reachable_recruits)

lemma reachable_engine2: "reachable engine2"
proof -
  have 0: "reachable engine0" unfolding engine0_def by (rule r_new)
  have 1: "reachable engine1" unfolding engine1_def using 0 s_addPlayer by (rule r_step)
  show ?thesis unfolding engine2_def using 1 s_addPlayer by (rule r_step)
qed

lemma reachable_engine3: "reachable engine3"
  unfolding engine3_def using reachable_engine2 s_update by (rule r_step)

lemma reachable_engine4: "reachable engine4"
proof -
  have "step engine3 engine4"
    unfolding engine4_def by (rule s_createUnit) (simp add: known_def)
  then show ?thesis using reachable_engine3 r_step by blast
qed

lemma reachable_engine4s: "reachable engine4s"
proof -
  have "step engine4 engine4s"
    unfolding engine4s_def by (rule s_createUnit) (simp add: known_def)
  then show ?thesis using reachable_engine4 r_step by blast
qed

lemma reachable_engine6: "reachable engine6"
proof -
  have 5: "reachable engine5" unfolding engine5_def using reachable_engine4 s_update by (rule r_step)
  show ?thesis unfolding engine6_def using 5 s_update by (rule r_step)
qed

lemma reachable_engine7: "reachable engine7"
  unfolding engine7_def using reachable_engine6 s_update by (rule r_step)

lemma reachable_engine2m: "reachable engine2m"
proof -
  have "step engine2 (snd (moveUnit engine2 16 (NewObject \<lparr>px = 200, py = 200\<rparr>)))"
    by (rule s_moveUnit) (simp add: known_def)
  then have "reachable (snd (moveUnit engine2 16 (NewObject \<lparr>px = 200, py = 200\<rparr>)))"
    using reachable_engine2 r_step by blast
  then show ?thesis unfolding engine2m_def using s_attackUnit by (rule r_step)
qed


section \<open>The claims\<close>

text \<open>
  Claim C1 (each resource is credited to at most one player per tick).  Evaluated on
  \<open>engine2\<close>, where a living soldier of player 15 and a living soldier of player 18 both
  stand on the uncollected resource 0: the pass over that one resource credits its 150 to
  both players, and a whole tick credits each of the fifteen resources to both.  The inner
  loop over the players marks the resource collected but does not look at the mark.
\<close>

theorem resource_credited_to_both:
  "reachable engine2 \<and>
   map_option money (map_of (players engine2) 15) = Some 485 \<and>
   map_option money (map_of (players engine2) 18) = Some 485 \<and>
   map_option money (map_of (players (collectResource 0 engine2)) 15) = Some (485 + 150) \<and>
   map_option money (map_of (players (collectResource 0 engine2)) 18) = Some (485 + 150) \<and>
   map_option money (map_of (players (update engine2 0)) 15) = Some (485 + 15 * 150) \<and>
   map_option money (map_of (players (update engine2 0)) 18) = Some (485 + 15 * 150)"
proof -
  have "map_option money (map_of (players (collectResource 0 engine2)) 15) = Some (485 + 150) \<and>
        map_option money (map_of (players (collectResource 0 engine2)) 18) = Some (485 + 150)"
    unfolding engine2_arena by (simp add: tick_defs)
  moreover have "map_option money (map_of (players engine3) 15) = Some (485 + 15 * 150) \<and>
        map_option money (map_of (players engine3) 18) = Some (485 + 15 * 150)"
    by (simp add: engine3_arena arena_def playerA_def playerB_def)
  ultimately show ?thesis
    using reachable_engine2
    by (simp add: engine3_def engine2_arena arena_def playerA_def playerB_def)
qed

text \<open>
  Claim C2 (a living unit is never both moving and attacking; a dead unit is neither).
  Two reachable states say otherwise.  In \<open>engine2m\<close> soldier 16 was ordered to move and then
  to attack: it is alive, moving and attacking.  In \<open>engine7\<close> soldier 19 has just been
  killed: it is dead and still attacking.
\<close>

theorem modes_invariant_counterexample:
  "reachable engine2m \<and>
   map_option isDead (map_of (units engine2m) 16) = Some False \<and>
   map_option isMoving (map_of (units engine2m) 16) = Some True \<and>
   map_option isAttacking (map_of (units engine2m) 16) = Some True \<and>
   reachable engine7 \<and>
   map_option isDead (map_of (units engine7) 19) = Some True \<and>
   map_option isAttacking (map_of (units engine7) 19) = Some True"
  using reachable_engine2m reachable_engine7
  by (simp add: engine2m_arena engine7_arena arena_def engaged_def)

text \<open>
  Claim C2, amended.  A unit is created with the three flags false and the constructed
  engine has no unit.  \<open>No unit is both moving and attacking\<close> is preserved by unit
  creation, player admission, the move command and the per-tick update, and by the attack
  command when the attacker is not moving.  \<open>A dead unit is neither moving nor attacking\<close>
  is preserved by unit creation, player admission, the move command and the attack
  command.
\<close>

theorem exclusive_modes_preserved:
  "(exclusiveModes s \<longrightarrow>
      exclusiveModes (snd (createUnit s key ty arg)) \<and>
      exclusiveModes (snd (addPlayer s nm fac r1 r2)) \<and>
      exclusiveModes (snd (moveUnit s uid dest)) \<and>
      exclusiveModes (update s now) \<and>
      ((\<forall>a. map_of (units s) aid = Some a \<longrightarrow> \<not> isMoving a) \<longrightarrow>
         exclusiveModes (snd (attackUnit s aid tid)))) \<and>
   (deadIdle s \<longrightarrow>
      deadIdle (snd (createUnit s key ty arg)) \<and>
      deadIdle (snd (addPlayer s nm fac r1 r2)) \<and>
      deadIdle (snd (moveUnit s uid dest)) \<and>
      deadIdle (snd (attackUnit s aid tid))) \<and>
   exclusiveModes (newGameEngine w h t0 rnd) \<and> deadIdle (newGameEngine w h t0 rnd) \<and>
   \<not> isMoving (UNIT_STATS ty pos pid) \<and> \<not> isAttacking (UNIT_STATS ty pos pid) \<and>
   \<not> isDead (UNIT_STATS ty pos pid)"
proof -
  have "\<not> isMoving (UNIT_STATS ty pos pid) \<and> \<not> isAttacking (UNIT_STATS ty pos pid)"
    by (cases ty) simp_all
  moreover have "exclusiveModes (newGameEngine w h t0 rnd)"
    by (simp add: exclusiveModes_def)
  moreover have "deadIdle (newGameEngine w h t0 rnd)"
    by (simp add: deadIdle_def)
  ultimately show ?thesis
    using excl_createUnit excl_addPlayer excl_moveUnit excl_update excl_attackUnit
      idle_createUnit idle_addPlayer idle_moveUnit idle_attackUnit
    by simp
qed

text \<open>
  Witness on \<open>siege7\<close>, where soldier 16 lies dead, neither moving nor attacking, and
  soldier 17 is not moving.
\<close>

theorem exclusive_modes_preserved_witness:
  "reachable siege7 \<and> exclusiveModes siege7 \<and> deadIdle siege7 \<and>
   map_option isDead (map_of (units siege7) 16) = Some True \<and>
   map_option isMoving (map_of (units siege7) 17) = Some False \<and>
   exclusiveModes (snd (createUnit siege7 (Uuid 15) SOLDIER (NewObject \<lparr>px = 140, py = 100\<rparr>))) \<and>
   exclusiveModes (snd (moveUnit siege7 17 (NewObject \<lparr>px = 200, py = 200\<rparr>))) \<and>
   exclusiveModes (update siege7 4000) \<and>
   exclusiveModes (snd (attackUnit siege7 17 19)) \<and>
   deadIdle (snd (createUnit siege7 (Uuid 15) SOLDIER (NewObject \<lparr>px = 140, py = 100\<rparr>))) \<and>
   deadIdle (snd (addPlayer siege7 ''C'' GLA 0 0)) \<and>
   deadIdle (snd (moveUnit siege7 17 (NewObject \<lparr>px = 200, py = 200\<rparr>))) \<and>
   deadIdle (snd (attackUnit siege7 17 19))"
proof -
  have "step engine3 siege4"
    unfolding siege4_def by (rule s_createUnit) (simp add: known_def)
  then have "reachable siege4" using reachable_engine3 r_step by blast
  then have "reachable siege5" unfolding siege5_def using s_update by (rule r_step)
  then have 6: "reachable siege6" unfolding siege6_def using s_update by (rule r_step)
  have "step siege6 siege6m"
    unfolding siege6m_def by (rule s_moveUnit) (simp add: known_def)
  then have "reachable siege6m" using 6 r_step by blast
  then have r: "reachable siege7" unfolding siege7_def using s_update by (rule r_step)
  have e: "exclusiveModes siege7"
    by (simp add: siege7_arena exclusiveModes_def arena_def engaged_def)
  have i: "deadIdle siege7"
    by (simp add: siege7_arena deadIdle_def arena_def engaged_def)
  have d: "map_option isDead (map_of (units siege7) 16) = Some True"
    by (simp add: siege7_arena arena_def engaged_def)
  have n: "\<forall>a. map_of (units siege7) 17 = Some a \<longrightarrow> \<not> isMoving a"
    by (simp add: siege7_arena arena_def engaged_def)
  have m: "map_option isMoving (map_of (units siege7) 17) = Some False"
    by (simp add: siege7_arena arena_def engaged_def)
  show ?thesis
    using r e i d n m
      exclusive_modes_preserved[of siege7 "Uuid 15" SOLDIER "NewObject \<lparr>px = 140, py = 100\<rparr>"
        "''C''" GLA 0 0 17 "NewObject \<lparr>px = 200, py = 200\<rparr>" 4000 17 19 264 264 0 "\<lambda>i. 0"]
    by simp
qed

text \<open>
  Claim C3 (admission leaves a roster of two soldiers and one tank).  What \<open>addPlayer\<close>
  leaves behind, for every engine state and every input: the new player's roster holds the
  two soldiers only and the balance is 485.  The third purchase, the tank, costs 540 with
  two units owned and is rejected.
\<close>

theorem addPlayer_starter_roster:
  "map_option playerUnits
      (map_of (players (snd (addPlayer s nm fac r1 r2))) (fst (addPlayer s nm fac r1 r2)))
     = Some [Suc (uuidCount s), Suc (Suc (uuidCount s))]
   \<and> map_option money
      (map_of (players (snd (addPlayer s nm fac r1 r2))) (fst (addPlayer s nm fac r1 r2)))
     = Some 485
   \<and> map_option unitType (map_of (units (snd (addPlayer s nm fac r1 r2))) (Suc (uuidCount s)))
     = Some SOLDIER
   \<and> map_option unitType (map_of (units (snd (addPlayer s nm fac r1 r2))) (Suc (Suc (uuidCount s))))
     = Some SOLDIER"
  by (simp add: addPlayer_result AList.update_conv')

text \<open>
  Claim C4 (the price is \<open>floor(base \<times> (1 + N \<times> 0.1))\<close>).  For a helicopter and four units
  owned the engine computes 979, one less than the 980 of the formula: in binary64,
  \<open>1 + 4 * 0.1\<close> is just below 1.4 and the product just below 980.  Player 15 of \<open>engine4s\<close>
  owns four units and pays 979.
\<close>

theorem fifth_unit_helicopter_price:
  "unitCost HELICOPTER 4 = 979 \<and>
   reachable engine4s \<and>
   \<lfloor>(700::real) * (1 + 4 * (1 / 10))\<rfloor> = 980 \<and>
   map_option playerUnits (map_of (players engine4s) 15) = Some [16, 17, 21, 22] \<and>
   map_option money (map_of (players engine4s) 15) = Some 2000 \<and>
   fst (createUnit engine4s (Uuid 15) HELICOPTER (NewObject \<lparr>px = 100, py = 100\<rparr>)) = Inr (Some 23) \<and>
   map_option money
     (map_of (players (snd (createUnit engine4s (Uuid 15) HELICOPTER (NewObject \<lparr>px = 100, py = 100\<rparr>)))) 15)
     = Some (2000 - 979)"
proof -
  have p: "map_of (players engine4s) 15 = Some (playerA 2000 [16, 17, 21, 22])"
    by (simp add: engine4s_arena arena_def)
  have c: "\<not> money (playerA 2000 [16, 17, 21, 22])
             < unitCost HELICOPTER (length (playerUnits (playerA 2000 [16, 17, 21, 22])))"
    by (simp add: playerA_def unitCost_HELICOPTER_Suc4)
  have u: "uuidCount engine4s = 23" by (simp add: engine4s_arena arena_def)
  show ?thesis
    unfolding createUnit_success[OF p c]
    using reachable_engine4s
    by (simp add: p u unitCost_HELICOPTER_4 unitCost_HELICOPTER_Suc4 playerA_def
        AList.update_conv')
qed

text \<open>
  Claim C5 (an unknown player or a balance below the scaled price gives \<open>null\<close> and no
  change).  For the keys \<open>toString\<close>, \<open>constructor\<close> and \<open>__proto__\<close>, which name no player,
  \<open>createUnit\<close> throws a \<open>TypeError\<close> in every engine state instead of returning \<open>null\<close>.
  And in the reachable state \<open>army\<close> player 15 owns 36 units and has a balance of 3219,
  strictly below the scaled price 3220 of a helicopter, \<open>floor(700 \<times> (1 + 36 \<times> 0.1))\<close>; the
  engine computes the price 3219, accepts the purchase, and leaves a balance of 0.
\<close>

theorem createUnit_rejection_diverges:
  "createUnit s (Name ''toString'') ty arg = (Inl TypeError, s) \<and>
   createUnit s (Name ''constructor'') ty arg = (Inl TypeError, s) \<and>
   createUnit s (Name ''__proto__'') ty arg = (Inl TypeError, s) \<and>
   reachable army \<and>
   map_option money (map_of (players army) 15) = Some 3219 \<and>
   map_option (\<lambda>p. length (playerUnits p)) (map_of (players army) 15) = Some 36 \<and>
   \<lfloor>(700::real) * (1 + 36 * (1 / 10))\<rfloor> = 3220 \<and>
   unitCost HELICOPTER 36 = 3219 \<and>
   fst (createUnit army (Uuid 15) HELICOPTER (NewObject \<lparr>px = 100, py = 100\<rparr>)) = Inr (Some 52) \<and>
   map_option money
     (map_of (players (snd (createUnit army (Uuid 15) HELICOPTER (NewObject \<lparr>px = 100, py = 100\<rparr>)))) 15)
     = Some 0"
proof -
  have n: "createUnit s (Name ''toString'') ty arg = (Inl TypeError, s) \<and>
           createUnit s (Name ''constructor'') ty arg = (Inl TypeError, s) \<and>
           createUnit s (Name ''__proto__'') ty arg = (Inl TypeError, s)"
    by (simp add: createUnit_def objectPrototypeNames_def)
  obtain p where p: "map_of (players army) 15 = Some p" and m: "money p = 3219"
    and l: "length (playerUnits p) = 36" and u: "uuidCount army = 52"
    using army_purse by blast
  have c: "\<not> money p < unitCost HELICOPTER (length (playerUnits p))"
    by (simp add: m l cost_HELICOPTER_36)
  have f: "\<lfloor>(700::real) * (1 + 36 * (1 / 10))\<rfloor> = 3220" by simp
  show ?thesis
    unfolding createUnit_success[OF p c]
    using n reachable_army f
    by (simp add: p m l u cost_HELICOPTER_36 AList.update_conv')
qed

text \<open>
  Claim C6 (ticks summing to 2.3 seconds apply damage exactly twice).  On \<open>engine2\<close> soldier
  16 stands on soldier 19 and attacks it from the first tick on, 7.5 health per hit.  With
  ticks at the clock readings 500, 1000, 1500, 2000 and 2300 soldier 19 is hit three
  times: at game time 1, at game time 2, and again at 2.3, because \<open>2.3 - 0.3\<close> evaluates to
  1.9999999999999998 and its floor is 1.  The same happens one tick of 25 milliseconds after
  game time 1.
\<close>

theorem three_hits_in_2300ms:
  "reachable engine2 \<and>
   map_option health (map_of (units engine2) 19) = Some 100 \<and>
   map_option health
     (map_of (units (update (update (update (update (update engine2 500) 1000) 1500) 2000) 2300))
        19) = Some (100 - 3 * (15 / 2)) \<and>
   attackDue (fl (1 + fl (25 / 1000))) (fl (25 / 1000))"
proof -
  have v: "update (update (update (update (update engine2 500) 1000) 1500) 2000) 2300 = volley5"
    by (simp add: volley5_def volley4_def volley3_def volley2_def volley1_def)
  have d: "fl (1 / 40) = 3602879701896397 / 144115188075855872"
    using fl_up[of "1 / 40" 58] by (simp add: rne_def)
  have g: "fl (147718067777752269 / 144115188075855872) = 2308094809027379 / 2251799813685248"
    using fl_up[of "147718067777752269 / 144115188075855872" 52] by (simp add: rne_def)
  have b: "fl (144115188075855859 / 144115188075855872) = 9007199254740991 / 9007199254740992"
    using fl_up[of "144115188075855859 / 144115188075855872" 53] by (simp add: rne_def)
  have "attackDue (fl (1 + fl (25 / 1000))) (fl (25 / 1000))"
    by (simp add: attackDue_def d g b)
  then show ?thesis
    unfolding v using reachable_engine2
    by (simp add: volley5_arena engine2_arena arena_def engaged_def)
qed

text \<open>
  Claim C7.  In every state reached from a reachable state by any number of commands and
  ticks, a unit of the earlier state is still in the unit map; its health is not negative;
  it is dead exactly when its health is 0; once dead it stays dead; and a dead unit is not on
  its owner's roster.
\<close>

theorem unit_health_and_death:
  assumes "reachable s" and "step\<^sup>*\<^sup>* s s'" and "map_of (units s) uid = Some u"
  shows "\<exists>u'. map_of (units s') uid = Some u' \<and> 0 \<le> health u' \<and>
           (isDead u \<longrightarrow> isDead u') \<and> (isDead u' \<longleftrightarrow> health u' = 0) \<and>
           (isDead u' \<longrightarrow> uid \<notin> set (rosterOf s' (playerId u')))"
proof -
  have r: "reachable s'" and p: "persists s s'"
    using steps_reachable_persists[OF assms(2,1)] by simp_all
  obtain u' where u': "map_of (units s') uid = Some u'" "isDead u \<longrightarrow> isDead u'"
    using p assms(3) unfolding persists_def by blast
  have "unitSound s' (uid, u')"
    using reachable_sound[OF r] u'(1) by (rule unitsSound_lookup)
  then show ?thesis using u' by (auto simp: unitSound_def split: if_splits)
qed

text \<open>
  Witness: soldier 19, alive with health 30 in \<open>engine6\<close> and killed by the tick to
  \<open>engine7\<close>; and the same soldier, dead in \<open>engine7\<close>, one tick later.
\<close>

theorem unit_health_and_death_witness:
  "reachable engine6 \<and> step\<^sup>*\<^sup>* engine6 engine7 \<and>
   map_of (units engine6) 19 = Some (engaged SOLDIER 19 18 (Some 16) 30) \<and>
   (\<exists>u'. map_of (units engine7) 19 = Some u' \<and> 0 \<le> health u' \<and>
      (isDead (engaged SOLDIER 19 18 (Some 16) 30) \<longrightarrow> isDead u') \<and>
      (isDead u' \<longleftrightarrow> health u' = 0) \<and>
      (isDead u' \<longrightarrow> 19 \<notin> set (rosterOf engine7 (playerId u')))) \<and>
   map_of (units engine7) 19 = Some ((engaged SOLDIER 19 18 (Some 16) 0)\<lparr>isDead := True\<rparr>) \<and>
   (\<exists>u'. map_of (units (update engine7 4000)) 19 = Some u' \<and> 0 \<le> health u' \<and>
      (isDead ((engaged SOLDIER 19 18 (Some 16) 0)\<lparr>isDead := True\<rparr>) \<longrightarrow> isDead u') \<and>
      (isDead u' \<longleftrightarrow> health u' = 0) \<and>
      (isDead u' \<longrightarrow> 19 \<notin> set (rosterOf (update engine7 4000) (playerId u'))))"
proof -
  have s67: "step\<^sup>*\<^sup>* engine6 engine7"
    unfolding engine7_def using s_update by (rule r_into_rtranclp)
  have s78: "step\<^sup>*\<^sup>* engine7 (update engine7 4000)"
    using s_update by (rule r_into_rtranclp)
  have l6: "map_of (units engine6) 19 = Some (engaged SOLDIER 19 18 (Some 16) 30)"
    by (simp add: engine6_arena arena_def)
  have l7: "map_of (units engine7) 19 = Some ((engaged SOLDIER 19 18 (Some 16) 0)\<lparr>isDead := True\<rparr>)"
    by (simp add: engine7_arena arena_def)
  show ?thesis
    using reachable_engine6 s67 l6 l7
      unit_health_and_death[OF reachable_engine6 s67 l6]
      unit_health_and_death[OF reachable_engine7 s78 l7]
    by blast
qed

text \<open>
  Claim C8.  An attack command whose attacker cannot attack the target's category returns
  \<open>false\<close> and leaves the whole engine state as it was.
\<close>

theorem attackUnit_incapable_rejected:
  assumes "map_of (units s) aid = Some a" and "map_of (units s) tid = Some t"
    and "\<not> canUnitAttackTarget a t"
  shows "attackUnit s aid tid = (False, s)"
  using assms by (simp add: attackUnit_def)

text \<open>
  Witness: the tank 21 of player 15 ordered to attack the helicopter 22 of player 18.
\<close>

theorem attackUnit_incapable_rejected_witness:
  "map_of (units engine4h) 21 = Some (engaged TANK 21 15 None 300) \<and>
   map_of (units engine4h) 22 = Some (engaged HELICOPTER 22 18 None 200) \<and>
   \<not> canUnitAttackTarget (engaged TANK 21 15 None 300) (engaged HELICOPTER 22 18 None 200) \<and>
   attackUnit engine4h 21 22 = (False, engine4h)"
proof -
  have a: "map_of (units engine4h) 21 = Some (engaged TANK 21 15 None 300)"
    and t: "map_of (units engine4h) 22 = Some (engaged HELICOPTER 22 18 None 200)"
    by (simp_all add: engine4h_arena arena_def)
  have c: "\<not> canUnitAttackTarget (engaged TANK 21 15 None 300) (engaged HELICOPTER 22 18 None 200)"
    by (simp add: canUnitAttackTarget_def engaged_def)
  show ?thesis using a t c attackUnit_incapable_rejected[OF a t c] by simp
qed




text \<open>
  Claim C10.  In every reachable state every player's balance is at least 0.
\<close>

theorem balance_never_negative:
  assumes "reachable s" and "map_of (players s) pid = Some p"
  shows "0 \<le> money p"
  using reachable_funds[OF assms(1)] assms(2) solvent_lookup by blast

text \<open>
  Witness: player 15 of \<open>engine4\<close>, after the starter roster and a tank.
\<close>

theorem balance_never_negative_witness:
  "reachable engine4 \<and> map_of (players engine4) 15 = Some (playerA 2195 [16, 17, 21]) \<and>
   0 \<le> money (playerA 2195 [16, 17, 21])"
proof -
  have p: "map_of (players engine4) 15 = Some (playerA 2195 [16, 17, 21])"
    by (simp add: engine4_arena arena_def)
  show ?thesis using reachable_engine4 p balance_never_negative[OF reachable_engine4 p] by simp
qed

end
